theory Spec2Isabelle
  imports Complex_Main "HOL-Library.Word"
begin

section \<open>Server monitor: sampling, rate derivation, alert evaluation, broadcast hub\<close>

text \<open>
  A shallow embedding of the monitoring core of the server monitor:
  \<^verbatim>\<open>monitor.SystemMonitor\<close> (\<^verbatim>\<open>CollectSystemMetrics\<close>, \<^verbatim>\<open>getNetworkSpeed\<close>,
  \<^verbatim>\<open>CheckAlerts\<close>), \<^verbatim>\<open>scheduler.Scheduler.collectSystemMetrics\<close> and
  \<^verbatim>\<open>websocket.Hub.Run\<close>.

  Conventions of the model:
  \<^item> Go's \<^verbatim>\<open>float64\<close> is idealised as \<^typ>\<open>real\<close>: no rounding error of the binary
    format, no NaN, no infinities. \<^verbatim>\<open>math.Round\<close> is written out (half away from zero).
  \<^item> Go's \<^verbatim>\<open>uint64\<close> is \<^typ>\<open>64 word\<close>, so subtraction and addition wrap around.
  \<^item> \<^verbatim>\<open>time.Time\<close> is a number of nanoseconds; a \<^verbatim>\<open>time.Duration\<close> is their difference.
  \<^item> What the operating system returns (gopsutil readings, the clock) is an argument of
    the function that asks for it; a failed reading is \<open>Inl\<close> of an error.
  \<^item> The gorm store is a record of tables; each table is the list of its rows.
\<close>

subsection \<open>Numbers and time\<close>

type_synonym float64 = real
type_synonym uint64 = "64 word"
type_synonym time = int

text \<open>\<^verbatim>\<open>math.Round\<close>: the nearest integer, halves away from zero.\<close>

definition math_Round :: "float64 \<Rightarrow> float64" where
  "math_Round x = (if x < 0 then - of_int \<lfloor>- x + 1 / 2\<rfloor> else of_int \<lfloor>x + 1 / 2\<rfloor>)"

text \<open>The idiom \<^verbatim>\<open>math.Round(x*100) / 100\<close> that the monitor uses for every field.\<close>

definition round2 :: "float64 \<Rightarrow> float64" where
  "round2 x = math_Round (x * 100) / 100"

text \<open>\<^verbatim>\<open>now.Sub(t).Seconds()\<close>: the duration in nanoseconds, as seconds.\<close>

definition Sub_Seconds :: "time \<Rightarrow> time \<Rightarrow> float64" where
  "Sub_Seconds now t = of_int (now - t) / 1000000000"

text \<open>
  The errors of the model: a failed reading of the operating system, the error of
  \<^verbatim>\<open>getNetworkSpeed\<close> ("time difference is zero"), gorm's \<^verbatim>\<open>ErrRecordNotFound\<close>, any
  other error that a query of the store reports (a locked database, a lost connection),
  and a run-time panic of Go (a send on a closed channel, the close of a closed channel).
\<close>

datatype error =
    SensorError string
  | TimeDifferenceIsZero
  | RecordNotFound
  | StoreError string
  | Panic string

subsection \<open>Rate sampler: \<^verbatim>\<open>SystemMonitor.getNetworkSpeed\<close>\<close>

text \<open>\<^verbatim>\<open>net.IOCountersStat\<close>, with the fields the monitor reads.\<close>

record IOCountersStat =
  Name :: string
  BytesSent :: uint64
  BytesRecv :: uint64

record SystemMonitor =
  lastNetworkStats :: "string \<rightharpoonup> IOCountersStat"
  lastNetworkTime :: time

text \<open>\<^verbatim>\<open>NewSystemMonitor\<close>: an empty map and the time of the creation.\<close>

definition NewSystemMonitor :: "time \<Rightarrow> SystemMonitor" where
  "NewSystemMonitor now = \<lparr>lastNetworkStats = Map.empty, lastNetworkTime = now\<rparr>"

text \<open>
  The loop over \<^verbatim>\<open>netStats\<close>. Its state is the map of last samples and the two
  \<^verbatim>\<open>uint64\<close> totals:
  \<^verbatim>\<open>
  for _, stat := range netStats {
      if lastStat, exists := sm.lastNetworkStats[stat.Name]; exists {
          uploadDiff := stat.BytesSent - lastStat.BytesSent
          downloadDiff := stat.BytesRecv - lastStat.BytesRecv
          totalUploadBytes += uploadDiff
          totalDownloadBytes += downloadDiff
      }
      sm.lastNetworkStats[stat.Name] = stat
  }
  \<close>
\<close>

fun sumNetStats ::
  "IOCountersStat list \<Rightarrow> (string \<rightharpoonup> IOCountersStat) \<times> uint64 \<times> uint64 \<Rightarrow>
   (string \<rightharpoonup> IOCountersStat) \<times> uint64 \<times> uint64" where
  "sumNetStats [] st = st"
| "sumNetStats (stat # netStats) (lastStats, totalUploadBytes, totalDownloadBytes) =
     (case lastStats (Name stat) of
        Some lastStat \<Rightarrow>
          sumNetStats netStats
            (lastStats(Name stat \<mapsto> stat),
             totalUploadBytes + (BytesSent stat - BytesSent lastStat),
             totalDownloadBytes + (BytesRecv stat - BytesRecv lastStat))
      | None \<Rightarrow>
          sumNetStats netStats
            (lastStats(Name stat \<mapsto> stat), totalUploadBytes, totalDownloadBytes))"

text \<open>
  \<^verbatim>\<open>getNetworkSpeed\<close> takes the result of \<^verbatim>\<open>net.IOCounters(false)\<close> and the clock
  reading, and returns the two speeds (or the error) with the updated monitor. Both
  error returns leave the monitor as it was.
\<close>

definition getNetworkSpeed ::
  "SystemMonitor \<Rightarrow> error + IOCountersStat list \<Rightarrow> time \<Rightarrow>
   (error + float64 \<times> float64) \<times> SystemMonitor" where
  "getNetworkSpeed sm io now =
     (case io of
        Inl err \<Rightarrow> (Inl err, sm)
      | Inr netStats \<Rightarrow>
          (let timeDiff = Sub_Seconds now (lastNetworkTime sm) in
           if timeDiff = 0 then (Inl TimeDifferenceIsZero, sm)
           else
             (case sumNetStats netStats (lastNetworkStats sm, 0, 0) of
                (lastStats, totalUploadBytes, totalDownloadBytes) \<Rightarrow>
                  (let uploadSpeed = real (unat totalUploadBytes) / (1024 * 1024 * timeDiff);
                       downloadSpeed = real (unat totalDownloadBytes) / (1024 * 1024 * timeDiff)
                   in (Inr (round2 uploadSpeed, round2 downloadSpeed),
                       sm\<lparr>lastNetworkStats := lastStats, lastNetworkTime := now\<rparr>)))))"

subsection \<open>Metric collector: \<^verbatim>\<open>SystemMonitor.CollectSystemMetrics\<close>\<close>

text \<open>\<^verbatim>\<open>models.SystemMetrics\<close>. The prefix \<open>m_\<close> marks the fields whose names other
  models share.\<close>

record SystemMetrics =
  m_ID :: nat
  m_Timestamp :: time
  CPU :: float64
  Memory :: float64
  Disk :: float64
  Upload :: float64
  Download :: float64
  m_CreatedAt :: time
  m_UpdatedAt :: time

record PartitionStat =
  Device :: string
  Mountpoint :: string

text \<open>
  One cycle's answers of the operating system: \<^verbatim>\<open>cpu.Percent(0, false)\<close>,
  \<^verbatim>\<open>mem.VirtualMemory()\<close> (its \<^verbatim>\<open>UsedPercent\<close>), \<^verbatim>\<open>disk.Partitions(false)\<close>,
  \<^verbatim>\<open>disk.Usage(mountpoint)\<close> (its \<^verbatim>\<open>UsedPercent\<close>), \<^verbatim>\<open>net.IOCounters(false)\<close> and
  \<^verbatim>\<open>time.Now()\<close> (one reading stands for the calls of one cycle).
\<close>

record readings =
  cpu_Percent :: "error + float64 list"
  mem_VirtualMemory :: "error + float64"
  disk_Partitions :: "error + PartitionStat list"
  disk_Usage :: "string \<Rightarrow> error + float64"
  net_IOCounters :: "error + IOCountersStat list"
  time_Now :: time

text \<open>
  The loop over the partitions, on \<^verbatim>\<open>totalUsage\<close> and \<^verbatim>\<open>partitionCount\<close>; a partition
  whose usage lookup fails is skipped by \<^verbatim>\<open>continue\<close>.
\<close>

fun sumDiskUsage ::
  "(string \<Rightarrow> error + float64) \<Rightarrow> PartitionStat list \<Rightarrow> float64 \<times> int \<Rightarrow> float64 \<times> int" where
  "sumDiskUsage usage [] acc = acc"
| "sumDiskUsage usage (part # parts) (totalUsage, partitionCount) =
     (case usage (Mountpoint part) of
        Inl err \<Rightarrow> sumDiskUsage usage parts (totalUsage, partitionCount)
      | Inr usedPercent \<Rightarrow>
          sumDiskUsage usage parts (totalUsage + usedPercent, partitionCount + 1))"

text \<open>The zero value of the struct, with the timestamp set.\<close>

definition newSystemMetrics :: "time \<Rightarrow> SystemMetrics" where
  "newSystemMetrics now =
     \<lparr>m_ID = 0, m_Timestamp = now, CPU = 0, Memory = 0, Disk = 0, Upload = 0, Download = 0,
      m_CreatedAt = 0, m_UpdatedAt = 0\<rparr>"

definition collectCPU :: "error + float64 list \<Rightarrow> SystemMetrics \<Rightarrow> SystemMetrics" where
  "collectCPU r metrics =
     (case r of
        Inl err \<Rightarrow> metrics\<lparr>CPU := 0\<rparr>
      | Inr cpuPercent \<Rightarrow>
          if length cpuPercent > 0 then metrics\<lparr>CPU := round2 (cpuPercent ! 0)\<rparr> else metrics)"

definition collectMemory :: "error + float64 \<Rightarrow> SystemMetrics \<Rightarrow> SystemMetrics" where
  "collectMemory r metrics =
     (case r of
        Inl err \<Rightarrow> metrics\<lparr>Memory := 0\<rparr>
      | Inr usedPercent \<Rightarrow> metrics\<lparr>Memory := round2 usedPercent\<rparr>)"

definition collectDisk ::
  "error + PartitionStat list \<Rightarrow> (string \<Rightarrow> error + float64) \<Rightarrow> SystemMetrics \<Rightarrow> SystemMetrics" where
  "collectDisk r usage metrics =
     (case r of
        Inl err \<Rightarrow> metrics\<lparr>Disk := 0\<rparr>
      | Inr parts \<Rightarrow>
          (case sumDiskUsage usage parts (0, 0) of
             (totalUsage, partitionCount) \<Rightarrow>
               if partitionCount > 0
               then metrics\<lparr>Disk := round2 (totalUsage / of_int partitionCount)\<rparr>
               else metrics))"

definition collectNetwork :: "error + float64 \<times> float64 \<Rightarrow> SystemMetrics \<Rightarrow> SystemMetrics" where
  "collectNetwork r metrics =
     (case r of
        Inl err \<Rightarrow> metrics\<lparr>Upload := 0, Download := 0\<rparr>
      | Inr (uploadSpeed, downloadSpeed) \<Rightarrow>
          metrics\<lparr>Upload := uploadSpeed, Download := downloadSpeed\<rparr>)"

text \<open>
  \<^verbatim>\<open>CollectSystemMetrics\<close>: the four blocks in the order of the source. The result is
  the pair the Go function returns (the record and the error, \<open>None\<close> for \<^verbatim>\<open>nil\<close>) and
  the monitor after the call.
\<close>

definition CollectSystemMetrics ::
  "SystemMonitor \<Rightarrow> readings \<Rightarrow> (SystemMetrics \<times> error option) \<times> SystemMonitor" where
  "CollectSystemMetrics sm os =
     (let metrics = newSystemMetrics (time_Now os);
          metrics = collectCPU (cpu_Percent os) metrics;
          metrics = collectMemory (mem_VirtualMemory os) metrics;
          metrics = collectDisk (disk_Partitions os) (disk_Usage os) metrics
      in case getNetworkSpeed sm (net_IOCounters os) (time_Now os) of
           (speeds, sm') \<Rightarrow> ((collectNetwork speeds metrics, None), sm'))"

subsection \<open>The store\<close>

text \<open>
  The text of an alert or log message is \<^verbatim>\<open>fmt.Sprintf\<close> of a fixed phrase for the kind
  and the value; the model keeps the phrase (too high, back to normal), the kind and
  the value.
\<close>

datatype message = UsageTooHigh string float64 | UsageBackToNormal string float64

record Alert =
  a_ID :: nat
  Type :: string
  a_Level :: string
  a_Message :: message
  Value :: float64
  Threshold :: float64
  Status :: string
  a_Timestamp :: time
  a_CreatedAt :: time
  a_UpdatedAt :: time

record SystemLog =
  l_ID :: nat
  l_Level :: string
  Category :: string
  l_Message :: message
  l_Timestamp :: time
  l_CreatedAt :: time

text \<open>
  The tables of the store. The primary keys are \<^verbatim>\<open>AUTOINCREMENT\<close>: for each table the
  store remembers the largest key the table has ever had, and a key is never used again,
  not even after its row has been deleted.
\<close>

record DB =
  alerts :: "Alert list"
  alerts_seq :: nat
  system_logs :: "SystemLog list"
  system_logs_seq :: nat
  system_metrics :: "SystemMetrics list"
  system_metrics_seq :: nat

text \<open>The primary key of a new row: one more than the largest key that the table has
  or has ever had.\<close>

definition next_id :: "nat \<Rightarrow> nat list \<Rightarrow> nat" where
  "next_id seq ids = Suc (fold max ids seq)"

text \<open>\<^verbatim>\<open>DB.Create\<close>: the row gets its key and gorm's creation and update times.\<close>

definition Create_alert :: "time \<Rightarrow> Alert \<Rightarrow> DB \<Rightarrow> DB" where
  "Create_alert now a db =
     (let key = next_id (alerts_seq db) (map a_ID (alerts db))
      in db\<lparr>alerts := alerts db @ [a\<lparr>a_ID := key, a_CreatedAt := now, a_UpdatedAt := now\<rparr>],
            alerts_seq := key\<rparr>)"

definition Create_log :: "time \<Rightarrow> SystemLog \<Rightarrow> DB \<Rightarrow> DB" where
  "Create_log now l db =
     (let key = next_id (system_logs_seq db) (map l_ID (system_logs db))
      in db\<lparr>system_logs := system_logs db @ [l\<lparr>l_ID := key, l_CreatedAt := now\<rparr>],
            system_logs_seq := key\<rparr>)"

text \<open>For the metrics the caller goes on with the struct that gorm has filled in.\<close>

definition Create_metrics :: "time \<Rightarrow> SystemMetrics \<Rightarrow> DB \<Rightarrow> SystemMetrics \<times> DB" where
  "Create_metrics now m db =
     (let key = next_id (system_metrics_seq db) (map m_ID (system_metrics db));
          row = m\<lparr>m_ID := key, m_CreatedAt := now, m_UpdatedAt := now\<rparr>
      in (row, db\<lparr>system_metrics := system_metrics db @ [row], system_metrics_seq := key\<rparr>))"

text \<open>
  \<^verbatim>\<open>DB.Where("type = ? AND status = ?", typ, status).First(&a)\<close>. The query can fail
  before it reads a row, with whatever error the driver reports: that outcome is the
  argument \<open>failure\<close> (\<open>None\<close> when the query runs). A query that runs gives the matching
  row with the least primary key, or the error that no record was found.
\<close>

definition Where_First :: "error option \<Rightarrow> string \<Rightarrow> string \<Rightarrow> DB \<Rightarrow> error + Alert" where
  "Where_First failure typ status db =
     (case failure of
        Some err \<Rightarrow> Inl err
      | None \<Rightarrow>
          (case filter (\<lambda>a. Type a = typ \<and> Status a = status) (alerts db) of
             [] \<Rightarrow> Inl RecordNotFound
           | a # as \<Rightarrow> Inr (fold (\<lambda>b c. if a_ID b < a_ID c then b else c) as a)))"

text \<open>
  \<^verbatim>\<open>DB.Save\<close>: a value with no primary key is created; otherwise the row with that
  key is overwritten with all fields (gorm sets the update time), and inserted when
  there is no such row. The writes of the model (\<^verbatim>\<open>Create\<close>, \<^verbatim>\<open>Save\<close>) are carried out:
  the evaluator ignores their errors, and a write that fails leaves the table as it is.
\<close>

definition Save_alert :: "time \<Rightarrow> Alert \<Rightarrow> DB \<Rightarrow> DB" where
  "Save_alert now a db =
     (if a_ID a = 0 then Create_alert now a db
      else if a_ID a \<in> set (map a_ID (alerts db))
      then db\<lparr>alerts :=
             map (\<lambda>r. if a_ID r = a_ID a then a\<lparr>a_UpdatedAt := now\<rparr> else r) (alerts db)\<rparr>
      else db\<lparr>alerts := alerts db @ [a\<lparr>a_UpdatedAt := now\<rparr>],
              alerts_seq := max (alerts_seq db) (a_ID a)\<rparr>)"

subsection \<open>Alert evaluator: \<^verbatim>\<open>SystemMonitor.CheckAlerts\<close>\<close>

text \<open>\<^verbatim>\<open>config.AppConfig.Monitor\<close>: the three thresholds are Go \<^verbatim>\<open>int\<close>s.\<close>

record MonitorConfig =
  AlertCPU :: int
  AlertMemory :: int
  AlertDisk :: int

text \<open>
  \<^verbatim>\<open>CheckAlerts\<close> is three blocks, for \<^verbatim>\<open>"cpu"\<close>, \<^verbatim>\<open>"memory"\<close> and \<^verbatim>\<open>"disk"\<close>, that
  differ in the type string, the field of the metrics, the threshold and the phrase of
  the message only. \<open>checkAlert\<close> is that block:
  \<^verbatim>\<open>
  if metrics.CPU > float64(config.AppConfig.Monitor.AlertCPU) {
      var existingAlert models.Alert
      result := database.DB.Where("type = ? AND status = ?", "cpu", "active").First(&existingAlert)
      if result.Error != nil {
          alert := models.Alert{Type: "cpu", Level: "warning", Message: ..., Value: metrics.CPU,
              Threshold: float64(...AlertCPU), Status: "active", Timestamp: time.Now()}
          database.DB.Create(&alert)
          systemLog := models.SystemLog{Level: "warning", Category: "system", Message: ...,
              Timestamp: time.Now()}
          database.DB.Create(&systemLog)
      } else {
          existingAlert.Value = metrics.CPU
          existingAlert.Message = ...
          existingAlert.UpdatedAt = time.Now()
          database.DB.Save(&existingAlert)
      }
  } else {
      var existingAlert models.Alert
      if database.DB.Where("type = ? AND status = ?", "cpu", "active").First(&existingAlert).Error == nil {
          existingAlert.Status = "resolved"
          existingAlert.UpdatedAt = time.Now()
          database.DB.Save(&existingAlert)
          systemLog := models.SystemLog{Level: "info", Category: "system", Message: ...,
              Timestamp: time.Now()}
          database.DB.Create(&systemLog)
      }
  }
  \<close>
\<close>

definition checkAlert ::
  "error option \<Rightarrow> string \<Rightarrow> float64 \<Rightarrow> int \<Rightarrow> time \<Rightarrow> DB \<Rightarrow> DB" where
  "checkAlert failure typ v alertThreshold now db =
     (if v > of_int alertThreshold then
        (case Where_First failure typ ''active'' db of
           Inl err \<Rightarrow>
             (let alert = \<lparr>a_ID = 0, Type = typ, a_Level = ''warning'',
                    a_Message = UsageTooHigh typ v, Value = v,
                    Threshold = of_int alertThreshold, Status = ''active'',
                    a_Timestamp = now, a_CreatedAt = 0, a_UpdatedAt = 0\<rparr>;
                  systemLog = \<lparr>l_ID = 0, l_Level = ''warning'', Category = ''system'',
                    l_Message = UsageTooHigh typ v, l_Timestamp = now, l_CreatedAt = 0\<rparr>
              in Create_log now systemLog (Create_alert now alert db))
         | Inr existingAlert \<Rightarrow>
             Save_alert now
               (existingAlert\<lparr>Value := v, a_Message := UsageTooHigh typ v, a_UpdatedAt := now\<rparr>)
               db)
      else
        (case Where_First failure typ ''active'' db of
           Inr existingAlert \<Rightarrow>
             (let systemLog = \<lparr>l_ID = 0, l_Level = ''info'', Category = ''system'',
                    l_Message = UsageBackToNormal typ v, l_Timestamp = now, l_CreatedAt = 0\<rparr>
              in Create_log now systemLog
                   (Save_alert now (existingAlert\<lparr>Status := ''resolved'', a_UpdatedAt := now\<rparr>) db))
         | Inl err \<Rightarrow> db))"

text \<open>
  \<^verbatim>\<open>CheckAlerts\<close> makes one lookup for each type; \<open>failures typ\<close> is the error, if any,
  with which the lookup for \<open>typ\<close> fails in this invocation.
\<close>

definition CheckAlerts ::
  "(string \<Rightarrow> error option) \<Rightarrow> MonitorConfig \<Rightarrow> SystemMetrics \<Rightarrow> time \<Rightarrow> DB \<Rightarrow>
   error option \<times> DB" where
  "CheckAlerts failures cfg metrics now db =
     (let db = checkAlert (failures ''cpu'') ''cpu'' (CPU metrics) (AlertCPU cfg) now db;
          db = checkAlert (failures ''memory'') ''memory'' (Memory metrics) (AlertMemory cfg)
                 now db;
          db = checkAlert (failures ''disk'') ''disk'' (Disk metrics) (AlertDisk cfg) now db
      in (None, db))"

subsection \<open>Scheduler: \<^verbatim>\<open>Scheduler.collectSystemMetrics\<close>\<close>

text \<open>
  A message handed to the hub, before \<^verbatim>\<open>json.Marshal\<close>: one constructor for each
  \<^verbatim>\<open>"type"\<close> of the wire format (\<^verbatim>\<open>system_metrics\<close>, \<^verbatim>\<open>service_status\<close>, \<^verbatim>\<open>alert\<close>,
  \<^verbatim>\<open>system_log\<close>), with its \<^verbatim>\<open>"data"\<close> (the payload of \<^verbatim>\<open>service_status\<close> is not
  modelled).
\<close>

datatype wire_message =
    SystemMetricsMessage SystemMetrics
  | ServiceStatusMessage
  | AlertMessage Alert
  | SystemLogMessage "SystemLog list"

fun is_alert :: "wire_message \<Rightarrow> bool" where
  "is_alert (AlertMessage a) = True"
| "is_alert m = False"

text \<open>
  What one cycle of the scheduler works on: its monitor, the store, and the messages it
  has sent to \<^verbatim>\<open>hub.Broadcast\<close> so far, oldest first.
\<close>

record world =
  sysMon :: SystemMonitor
  store :: DB
  published :: "wire_message list"

text \<open>
  \<^verbatim>\<open>SaveMetrics\<close> is \<^verbatim>\<open>database.DB.Create(metrics).Error\<close>; gorm writes the key and the
  times into the struct that \<^verbatim>\<open>metrics\<close> points to. The store of the model takes every
  write, so the error is \<^verbatim>\<open>nil\<close>.
\<close>

definition SaveMetrics ::
  "time \<Rightarrow> SystemMetrics \<Rightarrow> DB \<Rightarrow> (SystemMetrics \<times> error option) \<times> DB" where
  "SaveMetrics now metrics db =
     (case Create_metrics now metrics db of (metrics, db) \<Rightarrow> ((metrics, None), db))"

text \<open>
  \<^verbatim>\<open>
  func (s *Scheduler) collectSystemMetrics() {
      metrics, err := s.sysMon.CollectSystemMetrics()
      if err != nil { log...; return }
      err = s.sysMon.SaveMetrics(metrics)
      if err != nil { log...; return }
      err = s.sysMon.CheckAlerts(metrics)
      if err != nil { log... }
      s.hub.BroadcastSystemMetrics(metrics)
      log...
  }
  \<close>
\<close>

definition collectSystemMetrics ::
  "(string \<Rightarrow> error option) \<Rightarrow> MonitorConfig \<Rightarrow> readings \<Rightarrow> world \<Rightarrow> world" where
  "collectSystemMetrics failures cfg os w =
     (case CollectSystemMetrics (sysMon w) os of
        ((metrics, Some err), sm) \<Rightarrow> w\<lparr>sysMon := sm\<rparr>
      | ((metrics, None), sm) \<Rightarrow>
          (case SaveMetrics (time_Now os) metrics (store w) of
             ((metrics, Some err), db) \<Rightarrow> w\<lparr>sysMon := sm, store := db\<rparr>
           | ((metrics, None), db) \<Rightarrow>
               (case CheckAlerts failures cfg metrics (time_Now os) db of
                  (err, db) \<Rightarrow>
                    w\<lparr>sysMon := sm, store := db,
                      published := published w @ [SystemMetricsMessage metrics]\<rparr>)))"

text \<open>
  The job of \<^verbatim>\<open>addSystemLogPushJob\<close>, every ten seconds:
  \<^verbatim>\<open>
  var logs []models.SystemLog
  database.DB.Order("timestamp desc").Limit(5).Find(&logs)
  s.hub.BroadcastSystemLog(logs)
  \<close>
  The five latest log rows, the latest first (of two rows of the same timestamp the
  model puts the later one first), are sent as one \<^verbatim>\<open>system_log\<close> message.
\<close>

definition latestSystemLogs :: "DB \<Rightarrow> SystemLog list" where
  "latestSystemLogs db = take 5 (rev (sort_key l_Timestamp (system_logs db)))"

definition pushSystemLogs :: "world \<Rightarrow> world" where
  "pushSystemLogs w =
     w\<lparr>published := published w @ [SystemLogMessage (latestSystemLogs (store w))]\<rparr>"

subsection \<open>Broadcast hub: \<^verbatim>\<open>Hub.Run\<close>\<close>

text \<open>
  A \<^verbatim>\<open>*Client\<close> is its address. A buffered channel \<^verbatim>\<open>chan []byte\<close> is its queue, its
  capacity and whether it has been closed. The hub is the key set of the map
  \<^verbatim>\<open>Clients\<close>, as the list in which \<^verbatim>\<open>range\<close> visits it, and, for every client, the
  state of its channel \<^verbatim>\<open>client.Send\<close>.
\<close>

type_synonym client = nat
type_synonym bytes = string

record chan =
  buf :: "bytes list"
  cap :: nat
  closed :: bool

record Hub =
  Clients :: "client list"
  Send :: "client \<Rightarrow> chan"

datatype request = Register client | Unregister client | Broadcast bytes

text \<open>
  The \<^verbatim>\<open>Broadcast\<close> case, one client after the other:
  \<^verbatim>\<open>
  for client := range h.Clients {
      select {
      case client.Send <- message:
      default:
          close(client.Send)
          delete(h.Clients, client)
      }
  }
  \<close>
  The send is taken when the queue has room; a send on a closed channel panics.
\<close>

fun broadcastLoop :: "bytes \<Rightarrow> client list \<Rightarrow> Hub \<Rightarrow> error + Hub" where
  "broadcastLoop message [] h = Inr h"
| "broadcastLoop message (c # cs) h =
     (if closed (Send h c) then Inl (Panic ''send on closed channel'')
      else if length (buf (Send h c)) < cap (Send h c)
      then broadcastLoop message cs
             (h\<lparr>Send := (Send h)(c := (Send h c)\<lparr>buf := buf (Send h c) @ [message]\<rparr>)\<rparr>)
      else broadcastLoop message cs
             (h\<lparr>Send := (Send h)(c := (Send h c)\<lparr>closed := True\<rparr>),
                Clients := removeAll c (Clients h)\<rparr>))"

text \<open>One turn of the \<^verbatim>\<open>for { select { ... } }\<close> of \<^verbatim>\<open>Hub.Run\<close>, on the request it
  received.\<close>

fun Hub_Run :: "request \<Rightarrow> Hub \<Rightarrow> error + Hub" where
  "Hub_Run (Register c) h =
     Inr (if c \<in> set (Clients h) then h else h\<lparr>Clients := Clients h @ [c]\<rparr>)"
| "Hub_Run (Unregister c) h =
     (if c \<in> set (Clients h)
      then if closed (Send h c) then Inl (Panic ''close of closed channel'')
           else Inr (h\<lparr>Clients := removeAll c (Clients h),
                       Send := (Send h)(c := (Send h c)\<lparr>closed := True\<rparr>)\<rparr>)
      else Inr h)"
| "Hub_Run (Broadcast message) h = broadcastLoop message (Clients h) h"

text \<open>
  The hub together with what each client's \<^verbatim>\<open>writePump\<close> has taken from its queue
  and written to its socket. An event is a request that the hub processes, or one
  receive \<^verbatim>\<open>message, ok := <-c.Send\<close> of the \<^verbatim>\<open>writePump\<close> of a client (with an empty
  queue the receive waits, or ends the pump when the channel is closed: nothing is
  written).
\<close>

record net =
  hub :: Hub
  written :: "client \<Rightarrow> bytes list"

datatype event = Request request | Receive client

fun step :: "event \<Rightarrow> net \<Rightarrow> error + net" where
  "step (Request r) n =
     (case Hub_Run r (hub n) of Inl e \<Rightarrow> Inl e | Inr h \<Rightarrow> Inr (n\<lparr>hub := h\<rparr>))"
| "step (Receive c) n =
     (case buf (Send (hub n) c) of
        [] \<Rightarrow> Inr n
      | message # rest \<Rightarrow>
          Inr (n\<lparr>hub := (hub n)\<lparr>Send := (Send (hub n))(c := (Send (hub n) c)\<lparr>buf := rest\<rparr>)\<rparr>,
                 written := (written n)(c := written n c @ [message])\<rparr>))"

fun run :: "event list \<Rightarrow> net \<Rightarrow> error + net" where
  "run [] n = Inr n"
| "run (e # es) n = (case step e n of Inl err \<Rightarrow> Inl err | Inr n' \<Rightarrow> run es n')"

subsection \<open>Notions of the specification\<close>

text \<open>
  A value \<open>r\<close> is \<open>x\<close> rounded to two decimal places: \<open>r\<close> is a whole number of
  hundredths and is at most half a hundredth away from \<open>x\<close>.
\<close>

definition rounded_to_2_decimals :: "real \<Rightarrow> real \<Rightarrow> bool" where
  "rounded_to_2_decimals x r = (of_int \<lfloor>r * 100\<rfloor> = r * 100 \<and> \<bar>r - x\<bar> \<le> 1 / 200)"

text \<open>The sample of interface \<open>n\<close> in a reading: the last entry of that name, if any.\<close>

fun lastSample :: "string \<Rightarrow> IOCountersStat list \<Rightarrow> IOCountersStat option" where
  "lastSample n [] = None"
| "lastSample n (stat # netStats) =
     (case lastSample n netStats of
        Some s \<Rightarrow> Some s
      | None \<Rightarrow> if Name stat = n then Some stat else None)"

text \<open>
  What the monitor can receive from \<^verbatim>\<open>net.IOCounters(false)\<close>: an error, or the counters
  summed over all interfaces, which gopsutil reports as a single entry of the name
  \<^verbatim>\<open>all\<close>.
\<close>

definition aggregate_reading :: "error + IOCountersStat list \<Rightarrow> bool" where
  "aggregate_reading io =
     (case io of
        Inl err \<Rightarrow> True
      | Inr netStats \<Rightarrow>
          (case netStats of
             [] \<Rightarrow> False
           | stat # others \<Rightarrow> others = [] \<and> Name stat = ''all''))"

text \<open>
  The monitor after a sequence of calls of \<^verbatim>\<open>getNetworkSpeed\<close>, each with what the
  counters and the clock answered. The map of last samples is written by these calls
  only, so the states that a monitor can be in are those that aggregate readings lead
  to from \<^verbatim>\<open>NewSystemMonitor\<close>.
\<close>

fun monitor_after ::
  "((error + IOCountersStat list) \<times> time) list \<Rightarrow> SystemMonitor \<Rightarrow> SystemMonitor" where
  "monitor_after [] sm = sm"
| "monitor_after ((io, now) # calls) sm = monitor_after calls (snd (getNetworkSpeed sm io now))"

text \<open>The used-percent of exactly those partitions whose usage lookup succeeds.\<close>

definition successfulUsages ::
  "(string \<Rightarrow> error + float64) \<Rightarrow> PartitionStat list \<Rightarrow> float64 list" where
  "successfulUsages usage parts =
     List.map_filter (\<lambda>p. case usage (Mountpoint p) of Inl e \<Rightarrow> None | Inr v \<Rightarrow> Some v) parts"

definition mean :: "real list \<Rightarrow> real" where
  "mean xs = sum_list xs / real (length xs)"

text \<open>The number of alerts of a type that are active, and the invariant of the
  evaluator: at most one for each of the three signal kinds.\<close>

definition active_count :: "string \<Rightarrow> DB \<Rightarrow> nat" where
  "active_count typ db =
     length (filter (\<lambda>a. Type a = typ \<and> Status a = ''active'') (alerts db))"

definition at_most_one_active :: "DB \<Rightarrow> bool" where
  "at_most_one_active db =
     (active_count ''cpu'' db \<le> 1 \<and> active_count ''memory'' db \<le> 1 \<and>
      active_count ''disk'' db \<le> 1)"

text \<open>The primary key of the alerts: no two rows share it, and no row has the key 0,
  which gorm reads as no key.\<close>

definition primary_key_alerts :: "DB \<Rightarrow> bool" where
  "primary_key_alerts db =
     (distinct (map a_ID (alerts db)) \<and> 0 \<notin> set (map a_ID (alerts db)))"

text \<open>A subscriber that takes each message from its queue before the next is
  published: every publish is followed by one receive of that client.\<close>

fun publish_to_fast :: "client \<Rightarrow> bytes list \<Rightarrow> event list" where
  "publish_to_fast f [] = []"
| "publish_to_fast f (message # messages) =
     Request (Broadcast message) # Receive f # publish_to_fast f messages"

text \<open>The queue of a client has free capacity.\<close>

definition has_room :: "Hub \<Rightarrow> client \<Rightarrow> bool" where
  "has_room h c = (length (buf (Send h c)) < cap (Send h c))"

text \<open>
  A hub whose clients are a fast one \<open>f\<close>, registered, with an open, empty queue of
  positive capacity, and at most one other, \<open>s\<close>, whose open queue is filled to capacity.
\<close>

definition fast_and_slow :: "client \<Rightarrow> client \<Rightarrow> Hub \<Rightarrow> bool" where
  "fast_and_slow f s h =
     (distinct (Clients h) \<and> f \<in> set (Clients h) \<and> set (Clients h) \<subseteq> {f, s} \<and>
      \<not> closed (Send h f) \<and> buf (Send h f) = [] \<and> 0 < cap (Send h f) \<and>
      (s \<in> set (Clients h) \<longrightarrow>
         \<not> closed (Send h s) \<and> length (buf (Send h s)) = cap (Send h s)))"

subsection \<open>Example inputs\<close>

text \<open>A monitor that has seen the aggregate interface once, at time 0.\<close>

definition example_monitor :: SystemMonitor where
  "example_monitor =
     \<lparr>lastNetworkStats = [''all'' \<mapsto> \<lparr>Name = ''all'', BytesSent = 0, BytesRecv = 100\<rparr>],
      lastNetworkTime = 0\<rparr>"

text \<open>A cycle two seconds later in which every sensor answers; one of three mounts
  cannot be read.\<close>

definition example_usage :: "string \<Rightarrow> error + float64" where
  "example_usage mountpoint =
     (if mountpoint = ''/'' then Inr 40
      else if mountpoint = ''/data'' then Inr (121 / 2)
      else Inl (SensorError ''usage''))"

definition readings_ok :: readings where
  "readings_ok =
     \<lparr>cpu_Percent = Inr [2469 / 200],
      mem_VirtualMemory = Inr (50126 / 1000),
      disk_Partitions = Inr [\<lparr>Device = ''sda1'', Mountpoint = ''/''\<rparr>,
                             \<lparr>Device = ''sr0'', Mountpoint = ''/mnt''\<rparr>,
                             \<lparr>Device = ''sdb1'', Mountpoint = ''/data''\<rparr>],
      disk_Usage = example_usage,
      net_IOCounters = Inr [\<lparr>Name = ''all'', BytesSent = 3145728, BytesRecv = 524388\<rparr>],
      time_Now = 2000000000\<rparr>"

text \<open>A cycle in which every sensor fails.\<close>

definition readings_all_fail :: readings where
  "readings_all_fail =
     \<lparr>cpu_Percent = Inl (SensorError ''cpu''),
      mem_VirtualMemory = Inl (SensorError ''mem''),
      disk_Partitions = Inl (SensorError ''disk''),
      disk_Usage = (\<lambda>mountpoint. Inl (SensorError ''usage'')),
      net_IOCounters = Inl (SensorError ''net''),
      time_Now = 2000000000\<rparr>"

text \<open>A cycle at the very instant of the monitor's last sample.\<close>

definition readings_same_instant :: readings where
  "readings_same_instant = readings_ok\<lparr>time_Now := 0\<rparr>"

text \<open>A cycle in which the partitions are listed and no usage lookup succeeds.\<close>

definition readings_no_usage :: readings where
  "readings_no_usage = readings_ok\<lparr>disk_Usage := (\<lambda>mountpoint. Inl (SensorError ''usage''))\<rparr>"

text \<open>The thresholds of the example scenario: alert above 80 percent CPU.\<close>

definition example_config :: MonitorConfig where
  "example_config = \<lparr>AlertCPU = 80, AlertMemory = 80, AlertDisk = 90\<rparr>"

text \<open>A cycle at time \<open>t\<close> that measures the CPU at \<open>v\<close> percent, the memory at 50 and
  the one disk at 40.\<close>

definition cycle :: "float64 \<Rightarrow> time \<Rightarrow> readings" where
  "cycle v t =
     \<lparr>cpu_Percent = Inr [v],
      mem_VirtualMemory = Inr 50,
      disk_Partitions = Inr [\<lparr>Device = ''sda1'', Mountpoint = ''/''\<rparr>],
      disk_Usage = (\<lambda>mountpoint. Inr 40),
      net_IOCounters = Inr [\<lparr>Name = ''all'', BytesSent = 0, BytesRecv = 100\<rparr>],
      time_Now = t\<rparr>"

text \<open>A store whose lookups all run.\<close>

definition no_failure :: "string \<Rightarrow> error option" where
  "no_failure typ = None"

text \<open>A store whose lookup of the CPU alerts fails because the database is locked.\<close>

definition cpu_lookup_fails :: "string \<Rightarrow> error option" where
  "cpu_lookup_fails typ =
     (if typ = ''cpu'' then Some (StoreError ''database is locked'') else None)"

text \<open>
  The scenario: an empty store, then four cycles, five seconds apart, that measure 70,
  85, 90 and 75, with the push of the latest log rows every ten seconds.
\<close>

definition world0 :: world where
  "world0 = \<lparr>sysMon = example_monitor,
             store = \<lparr>alerts = [], alerts_seq = 0, system_logs = [], system_logs_seq = 0,
                      system_metrics = [], system_metrics_seq = 0\<rparr>,
             published = []\<rparr>"

definition world1 :: world where
  "world1 = collectSystemMetrics no_failure example_config (cycle 70 5000000000) world0"

definition world2 :: world where
  "world2 = collectSystemMetrics no_failure example_config (cycle 85 10000000000) world1"

definition world2_pushed :: world where
  "world2_pushed = pushSystemLogs world2"

definition world3 :: world where
  "world3 = collectSystemMetrics no_failure example_config (cycle 90 15000000000) world2_pushed"

definition world4 :: world where
  "world4 = collectSystemMetrics no_failure example_config (cycle 75 20000000000) world3"

definition world4_pushed :: world where
  "world4_pushed = pushSystemLogs world4"

text \<open>A store with one active CPU alert, and a record with CPU and memory above their
  thresholds.\<close>

definition store_one_active :: DB where
  "store_one_active =
     \<lparr>alerts = [\<lparr>a_ID = 1, Type = ''cpu'', a_Level = ''warning'',
                  a_Message = UsageTooHigh ''cpu'' 85, Value = 85, Threshold = 80,
                  Status = ''active'', a_Timestamp = 10, a_CreatedAt = 10, a_UpdatedAt = 10\<rparr>],
      alerts_seq = 1, system_logs = [], system_logs_seq = 0,
      system_metrics = [], system_metrics_seq = 0\<rparr>"

definition metrics_high :: SystemMetrics where
  "metrics_high = (newSystemMetrics 20)\<lparr>CPU := 90, Memory := 85, Disk := 10\<rparr>"

text \<open>A hub with two clients whose queues hold two messages: client 1 with an empty
  queue, client 2 with a full one; nothing written to a socket yet.\<close>

definition example_hub :: Hub where
  "example_hub =
     \<lparr>Clients = [1, 2],
      Send = (\<lambda>c. if c = 1 then \<lparr>buf = [], cap = 2, closed = False\<rparr>
                   else \<lparr>buf = [''x'', ''y''], cap = 2, closed = False\<rparr>)\<rparr>"

definition example_net :: net where
  "example_net = \<lparr>hub = example_hub, written = (\<lambda>c. [])\<rparr>"

section \<open>Properties\<close>

subsection \<open>Rounding and elapsed time\<close>

lemma math_Round_int: "of_int \<lfloor>math_Round x\<rfloor> = math_Round x"
  by (simp add: math_Round_def)

lemma math_Round_near: "\<bar>math_Round x - x\<bar> \<le> 1 / 2"
proof (cases "x < 0")
  case True
  define n where "n = \<lfloor>- x + 1 / 2\<rfloor>"
  have "of_int n \<le> - x + 1 / 2" "- x + 1 / 2 < of_int n + 1"
    unfolding n_def by linarith+
  moreover have "math_Round x = - of_int n"
    using True by (simp only: math_Round_def n_def if_True)
  ultimately show ?thesis by linarith
next
  case False
  define n where "n = \<lfloor>x + 1 / 2\<rfloor>"
  have "of_int n \<le> x + 1 / 2" "x + 1 / 2 < of_int n + 1"
    unfolding n_def by linarith+
  moreover have "math_Round x = of_int n"
    using False by (simp only: math_Round_def n_def if_False)
  ultimately show ?thesis by linarith
qed

lemma math_Round_nonneg: "0 \<le> x \<Longrightarrow> 0 \<le> math_Round x"
  unfolding math_Round_def by (auto; linarith)

lemma round2_nonneg: "0 \<le> x \<Longrightarrow> 0 \<le> round2 x"
  unfolding round2_def by (simp add: math_Round_nonneg)

lemma round2_rounded: "rounded_to_2_decimals x (round2 x)"
proof -
  have "\<bar>math_Round (x * 100) - x * 100\<bar> \<le> 1 / 2"
    by (rule math_Round_near)
  then have "\<bar>round2 x - x\<bar> \<le> 1 / 200"
    unfolding round2_def by (simp add: field_simps abs_if split: if_splits)
  moreover have "of_int \<lfloor>round2 x * 100\<rfloor> = round2 x * 100"
    unfolding round2_def by (simp add: math_Round_int)
  ultimately show ?thesis
    by (simp add: rounded_to_2_decimals_def)
qed

lemma Sub_Seconds_zero: "Sub_Seconds now t = 0 \<longleftrightarrow> now = t"
  by (simp add: Sub_Seconds_def)

lemma Sub_Seconds_pos: "0 < Sub_Seconds now t \<longleftrightarrow> t < now"
  by (simp add: Sub_Seconds_def)

subsection \<open>Unsigned subtraction\<close>

lemma unat_sub_le: "(b::uint64) \<le> a \<Longrightarrow> unat (a - b) = unat a - unat b"
  by (simp add: unat_sub)

lemma unat_sub_wrap:
  assumes "(a::uint64) < b"
  shows "unat (a - b) = 2 ^ 64 - (unat b - unat a)"
proof -
  from assms have lt: "unat a < unat b"
    by (simp add: word_less_nat_alt)
  have "unat b < 2 ^ 64"
    using unsigned_less [of b, where ?'a = nat] by simp
  with lt show ?thesis
    by (simp add: unat_sub_if_size word_size)
qed

subsection \<open>The rate sampler\<close>

lemma getNetworkSpeed_Inl: "getNetworkSpeed sm (Inl e) now = (Inl e, sm)"
  by (simp add: getNetworkSpeed_def)

lemma getNetworkSpeed_zero:
  "Sub_Seconds now (lastNetworkTime sm) = 0 \<Longrightarrow>
   getNetworkSpeed sm (Inr netStats) now = (Inl TimeDifferenceIsZero, sm)"
  by (simp add: getNetworkSpeed_def)

text \<open>One interface in the reading, known from the previous cycle.\<close>

lemma getNetworkSpeed_single:
  assumes "lastNetworkStats sm (Name stat) = Some lastStat"
    and "now \<noteq> lastNetworkTime sm"
  shows "getNetworkSpeed sm (Inr [stat]) now =
    (Inr (round2 (real (unat (BytesSent stat - BytesSent lastStat)) /
                   (1024 * 1024 * Sub_Seconds now (lastNetworkTime sm))),
          round2 (real (unat (BytesRecv stat - BytesRecv lastStat)) /
                   (1024 * 1024 * Sub_Seconds now (lastNetworkTime sm)))),
     sm\<lparr>lastNetworkStats := (lastNetworkStats sm)(Name stat \<mapsto> stat),
        lastNetworkTime := now\<rparr>)"
  using assms by (simp add: getNetworkSpeed_def Let_def Sub_Seconds_zero)

lemma sumNetStats_lastStats:
  "fst (sumNetStats netStats (lastStats, up, down)) n =
     (case lastSample n netStats of
        Some s \<Rightarrow> Some s
      | None \<Rightarrow> lastStats n)"
proof (induction netStats arbitrary: lastStats up down)
  case Nil
  then show ?case by simp
next
  case (Cons stat netStats)
  show ?case
    by (cases "lastStats (Name stat)") (auto simp: Cons.IH split: option.splits)
qed

text \<open>
  C1, as the code has it. The claim says that a counter that decreased between two
  samples gives the rate 0. The code subtracts the two \<^verbatim>\<open>uint64\<close> counters with no
  comparison, so the difference wraps around: for a counter that went from \<open>p\<close> down to
  \<open>c\<close> the delta is \<open>2^64 - (p - c)\<close>, and the rate is that number of bytes over
  \<open>1048576 \<times> \<Delta>t\<close>, rounded to two decimals. With a positive elapsed time both rates
  are never negative.
\<close>

theorem getNetworkSpeed_decrease_wraps:
  assumes "lastNetworkStats sm (Name stat) = Some lastStat"
    and "lastNetworkTime sm < now"
  shows "\<exists>up down.
      fst (getNetworkSpeed sm (Inr [stat]) now) = Inr (up, down) \<and> 0 \<le> up \<and> 0 \<le> down \<and>
      (BytesSent stat < BytesSent lastStat \<longrightarrow>
         up = round2 (real (2 ^ 64 - (unat (BytesSent lastStat) - unat (BytesSent stat))) /
                        (1048576 * Sub_Seconds now (lastNetworkTime sm)))) \<and>
      (BytesRecv stat < BytesRecv lastStat \<longrightarrow>
         down = round2 (real (2 ^ 64 - (unat (BytesRecv lastStat) - unat (BytesRecv stat))) /
                          (1048576 * Sub_Seconds now (lastNetworkTime sm))))"
proof -
  from assms(2) have ne: "now \<noteq> lastNetworkTime sm"
    and pos: "0 < Sub_Seconds now (lastNetworkTime sm)"
    by (simp_all add: Sub_Seconds_pos)
  note single = getNetworkSpeed_single [OF assms(1) ne]
  let ?dt = "Sub_Seconds now (lastNetworkTime sm)"
  let ?up = "round2 (real (unat (BytesSent stat - BytesSent lastStat)) / (1024 * 1024 * ?dt))"
  let ?down = "round2 (real (unat (BytesRecv stat - BytesRecv lastStat)) / (1024 * 1024 * ?dt))"
  have res: "fst (getNetworkSpeed sm (Inr [stat]) now) = Inr (?up, ?down)"
    by (simp add: single)
  from pos have "0 \<le> ?up" "0 \<le> ?down"
    by (intro round2_nonneg divide_nonneg_nonneg mult_nonneg_nonneg; simp del: of_nat_unat)+
  moreover have "BytesSent stat < BytesSent lastStat \<longrightarrow>
      ?up = round2 (real (2 ^ 64 - (unat (BytesSent lastStat) - unat (BytesSent stat))) /
                      (1048576 * ?dt))"
    by (simp add: unat_sub_wrap)
  moreover have "BytesRecv stat < BytesRecv lastStat \<longrightarrow>
      ?down = round2 (real (2 ^ 64 - (unat (BytesRecv lastStat) - unat (BytesRecv stat))) /
                        (1048576 * ?dt))"
    by (simp add: unat_sub_wrap)
  ultimately show ?thesis
    using res by blast
qed

text \<open>The theorem at a reading whose two counters fell, one second after the last.\<close>

theorem getNetworkSpeed_decrease_wraps_witness:
  "lastNetworkStats
     \<lparr>lastNetworkStats = [''all'' \<mapsto> \<lparr>Name = ''all'', BytesSent = 100, BytesRecv = 7\<rparr>],
      lastNetworkTime = 0\<rparr> (Name \<lparr>Name = ''all'', BytesSent = 50, BytesRecv = 3\<rparr>)
     = Some \<lparr>Name = ''all'', BytesSent = 100, BytesRecv = 7\<rparr> \<and>
   (0::int) < 1000000000 \<and>
   (\<exists>up down.
      fst (getNetworkSpeed
            \<lparr>lastNetworkStats = [''all'' \<mapsto> \<lparr>Name = ''all'', BytesSent = 100, BytesRecv = 7\<rparr>],
             lastNetworkTime = 0\<rparr>
            (Inr [\<lparr>Name = ''all'', BytesSent = 50, BytesRecv = 3\<rparr>]) 1000000000)
        = Inr (up, down) \<and>
      0 \<le> up \<and> 0 \<le> down \<and> up = 17592186044416 \<and> down = 17592186044416)"
  using getNetworkSpeed_decrease_wraps
    [of "\<lparr>lastNetworkStats = [''all'' \<mapsto> \<lparr>Name = ''all'', BytesSent = 100, BytesRecv = 7\<rparr>],
          lastNetworkTime = 0\<rparr>"
        "\<lparr>Name = ''all'', BytesSent = 50, BytesRecv = 3\<rparr>"
        "\<lparr>Name = ''all'', BytesSent = 100, BytesRecv = 7\<rparr>" 1000000000]
  by (simp add: round2_def math_Round_def Sub_Seconds_def)

text \<open>
  The claim of C1 fails: the sent counter falls from 100 to 50 within one second, and
  the upload rate is 17592186044416 MB/s, not 0.
\<close>

theorem getNetworkSpeed_decrease_counterexample:
  "BytesSent \<lparr>Name = ''all'', BytesSent = 50, BytesRecv = 0\<rparr>
     < BytesSent \<lparr>Name = ''all'', BytesSent = 100, BytesRecv = 0\<rparr> \<and>
   (0::int) < 1000000000 \<and>
   fst (getNetworkSpeed
         \<lparr>lastNetworkStats = [''all'' \<mapsto> \<lparr>Name = ''all'', BytesSent = 100, BytesRecv = 0\<rparr>],
          lastNetworkTime = 0\<rparr>
         (Inr [\<lparr>Name = ''all'', BytesSent = 50, BytesRecv = 0\<rparr>]) 1000000000)
     = Inr (17592186044416, 0) \<and>
   (17592186044416::real) \<noteq> 0"
  by (simp add: getNetworkSpeed_def round2_def math_Round_def Sub_Seconds_def)

text \<open>
  C4. For two consecutive samples of the same interface with non-decreasing byte
  counters and positive elapsed time, each rate that \<^verbatim>\<open>getNetworkSpeed\<close> returns is the
  number of bytes gained over \<open>1048576 \<times> \<Delta>t\<close> (so in MB/s), rounded to two decimal
  places: it is \<^verbatim>\<open>math.Round(x*100)/100\<close> of that quotient, which is a whole number of
  hundredths at most 0.005 away from it.
\<close>

theorem getNetworkSpeed_rate:
  assumes "lastNetworkStats sm (Name stat) = Some lastStat"
    and "BytesSent lastStat \<le> BytesSent stat"
    and "BytesRecv lastStat \<le> BytesRecv stat"
    and "lastNetworkTime sm < now"
  shows "\<exists>up down.
      fst (getNetworkSpeed sm (Inr [stat]) now) = Inr (up, down) \<and>
      up = round2 (real (unat (BytesSent stat) - unat (BytesSent lastStat)) /
                     (1048576 * Sub_Seconds now (lastNetworkTime sm))) \<and>
      down = round2 (real (unat (BytesRecv stat) - unat (BytesRecv lastStat)) /
                       (1048576 * Sub_Seconds now (lastNetworkTime sm))) \<and>
      rounded_to_2_decimals
        (real (unat (BytesSent stat) - unat (BytesSent lastStat)) /
           (1048576 * Sub_Seconds now (lastNetworkTime sm))) up \<and>
      rounded_to_2_decimals
        (real (unat (BytesRecv stat) - unat (BytesRecv lastStat)) /
           (1048576 * Sub_Seconds now (lastNetworkTime sm))) down"
proof -
  from assms(4) have ne: "now \<noteq> lastNetworkTime sm"
    by simp
  have "fst (getNetworkSpeed sm (Inr [stat]) now) =
      Inr (round2 (real (unat (BytesSent stat) - unat (BytesSent lastStat)) /
                     (1048576 * Sub_Seconds now (lastNetworkTime sm))),
           round2 (real (unat (BytesRecv stat) - unat (BytesRecv lastStat)) /
                     (1048576 * Sub_Seconds now (lastNetworkTime sm))))"
    by (simp add: getNetworkSpeed_single [OF assms(1) ne] unat_sub_le assms(2,3))
  then show ?thesis
    using round2_rounded by blast
qed

text \<open>The theorem at 3 MiB sent and 512 KiB received in two seconds: 1.5 and 0.25 MB/s.\<close>

theorem getNetworkSpeed_rate_witness:
  "lastNetworkStats example_monitor (Name \<lparr>Name = ''all'', BytesSent = 3145728, BytesRecv = 524388\<rparr>)
     = Some \<lparr>Name = ''all'', BytesSent = 0, BytesRecv = 100\<rparr> \<and>
   (0::uint64) \<le> 3145728 \<and> (100::uint64) \<le> 524388 \<and>
   lastNetworkTime example_monitor < 2000000000 \<and>
   fst (getNetworkSpeed example_monitor
          (Inr [\<lparr>Name = ''all'', BytesSent = 3145728, BytesRecv = 524388\<rparr>]) 2000000000)
     = Inr (3 / 2, 1 / 4)"
proof -
  let ?stat = "\<lparr>Name = ''all'', BytesSent = 3145728, BytesRecv = 524388\<rparr>"
  let ?last = "\<lparr>Name = ''all'', BytesSent = 0, BytesRecv = 100\<rparr>"
  have h1: "lastNetworkStats example_monitor (Name ?stat) = Some ?last"
    by (simp add: example_monitor_def)
  have h2: "BytesSent ?last \<le> BytesSent ?stat" and h3: "BytesRecv ?last \<le> BytesRecv ?stat"
    by simp_all
  have h4: "lastNetworkTime example_monitor < 2000000000"
    by (simp add: example_monitor_def)
  from getNetworkSpeed_rate [OF h1 h2 h3 h4] obtain up down where
    r: "fst (getNetworkSpeed example_monitor (Inr [?stat]) 2000000000) = Inr (up, down)"
    and u: "up = round2 (real (unat (BytesSent ?stat) - unat (BytesSent ?last)) /
              (1048576 * Sub_Seconds 2000000000 (lastNetworkTime example_monitor)))"
    and d: "down = round2 (real (unat (BytesRecv ?stat) - unat (BytesRecv ?last)) /
              (1048576 * Sub_Seconds 2000000000 (lastNetworkTime example_monitor)))"
    by blast
  have "up = 3 / 2"
    unfolding u by (simp add: example_monitor_def round2_def math_Round_def Sub_Seconds_def)
  moreover have "down = 1 / 4"
    unfolding d by (simp add: example_monitor_def round2_def math_Round_def Sub_Seconds_def)
  ultimately show ?thesis
    using r h1 h4 by simp
qed

text \<open>
  What a call that computes rates does to the stored samples, for any reading: every
  interface of the reading gets its current sample, every other entry stays.
\<close>

lemma getNetworkSpeed_lastNetworkStats:
  assumes "now \<noteq> lastNetworkTime sm"
  shows "lastNetworkTime (snd (getNetworkSpeed sm (Inr netStats) now)) = now \<and>
    (\<forall>n. lastNetworkStats (snd (getNetworkSpeed sm (Inr netStats) now)) n =
       (case lastSample n netStats of
          Some s \<Rightarrow> Some s
        | None \<Rightarrow> lastNetworkStats sm n))"
proof -
  obtain lastStats up down where
    run: "sumNetStats netStats (lastNetworkStats sm, 0, 0) = (lastStats, up, down)"
    by (cases "sumNetStats netStats (lastNetworkStats sm, 0, 0)") auto
  have "lastStats n =
       (case lastSample n netStats of
          Some s \<Rightarrow> Some s
        | None \<Rightarrow> lastNetworkStats sm n)" for n
    using sumNetStats_lastStats [of netStats "lastNetworkStats sm" 0 0 n] by (simp add: run)
  with assms show ?thesis
    by (simp add: getNetworkSpeed_def Let_def Sub_Seconds_zero run)
qed

lemma getNetworkSpeed_same_instant:
  "getNetworkSpeed sm (Inr netStats) (lastNetworkTime sm) = (Inl TimeDifferenceIsZero, sm)"
  by (simp add: getNetworkSpeed_def Sub_Seconds_def)

lemma aggregate_reading_Inr:
  "aggregate_reading (Inr netStats) \<longleftrightarrow> (\<exists>stat. netStats = [stat] \<and> Name stat = ''all'')"
  by (auto simp: aggregate_reading_def split: list.splits)

text \<open>A monitor that knows no interface but \<^verbatim>\<open>all\<close> stays so under aggregate readings.\<close>

lemma getNetworkSpeed_keeps_aggregate:
  assumes "aggregate_reading io" and "\<forall>n. n \<noteq> ''all'' \<longrightarrow> lastNetworkStats sm n = None"
  shows "\<forall>n. n \<noteq> ''all'' \<longrightarrow> lastNetworkStats (snd (getNetworkSpeed sm io now)) n = None"
proof (cases io)
  case (Inl err)
  with assms(2) show ?thesis
    by (simp add: getNetworkSpeed_Inl)
next
  case (Inr netStats)
  with assms(1) obtain stat where stat: "netStats = [stat]" "Name stat = ''all''"
    by (auto simp: aggregate_reading_Inr)
  show ?thesis
  proof (cases "now = lastNetworkTime sm")
    case True
    with assms(2) Inr show ?thesis
      by (simp add: getNetworkSpeed_same_instant)
  next
    case False
    from getNetworkSpeed_lastNetworkStats [OF False, of netStats] assms(2) stat Inr
    show ?thesis
      by auto
  qed
qed

lemma monitor_after_aggregate:
  assumes "list_all (\<lambda>call. aggregate_reading (fst call)) calls"
    and "\<forall>n. n \<noteq> ''all'' \<longrightarrow> lastNetworkStats sm n = None"
  shows "\<forall>n. n \<noteq> ''all'' \<longrightarrow> lastNetworkStats (monitor_after calls sm) n = None"
  using assms
proof (induction calls arbitrary: sm)
  case Nil
  then show ?case by simp
next
  case (Cons call calls)
  obtain io now where call: "call = (io, now)"
    by (cases call)
  from Cons.prems(1) call have io: "aggregate_reading io"
    and rest: "list_all (\<lambda>call. aggregate_reading (fst call)) calls"
    by simp_all
  from Cons.IH [OF rest getNetworkSpeed_keeps_aggregate [OF io Cons.prems(2), of now]]
  show ?case
    by (simp add: call)
qed

text \<open>
  C9. After every call of \<^verbatim>\<open>getNetworkSpeed\<close> that computes rates, the previous
  timestamp is the current time and the stored previous-sample map is exactly the
  current reading: the entry of an interface is its current sample, and an interface
  absent from the current reading has no entry, so no baseline older than one cycle is
  retained. This holds in every state that the monitor can be in: the map starts empty
  in \<^verbatim>\<open>NewSystemMonitor\<close> and is written by \<^verbatim>\<open>getNetworkSpeed\<close> alone, from the readings
  of \<^verbatim>\<open>net.IOCounters(false)\<close>.
\<close>

theorem getNetworkSpeed_replaces_baselines:
  assumes "list_all (\<lambda>call. aggregate_reading (fst call)) calls"
    and "sm = monitor_after calls (NewSystemMonitor t0)"
    and "aggregate_reading (Inr netStats)"
    and "now \<noteq> lastNetworkTime sm"
  shows "lastNetworkTime (snd (getNetworkSpeed sm (Inr netStats) now)) = now \<and>
    (\<forall>n. lastNetworkStats (snd (getNetworkSpeed sm (Inr netStats) now)) n =
       lastSample n netStats)"
proof -
  have "\<forall>n. n \<noteq> ''all'' \<longrightarrow> lastNetworkStats (NewSystemMonitor t0) n = None"
    by (simp add: NewSystemMonitor_def)
  from monitor_after_aggregate [OF assms(1) this]
  have known: "\<forall>n. n \<noteq> ''all'' \<longrightarrow> lastNetworkStats sm n = None"
    by (simp add: assms(2))
  from assms(3) obtain stat where stat: "netStats = [stat]" "Name stat = ''all''"
    by (auto simp: aggregate_reading_Inr)
  from getNetworkSpeed_lastNetworkStats [OF assms(4), of netStats] known stat
  show ?thesis
    by auto
qed

text \<open>
  The theorem at a monitor created at time 0 that has computed rates once and failed to
  read the counters once, at its next reading: the entry of \<^verbatim>\<open>all\<close> is the current
  sample, and there is no other entry.
\<close>

theorem getNetworkSpeed_replaces_baselines_witness:
  "list_all (\<lambda>call. aggregate_reading (fst call))
     [(Inr [\<lparr>Name = ''all'', BytesSent = 0, BytesRecv = 100\<rparr>], 5000000000),
      (Inl (SensorError ''net''), 10000000000)] \<and>
   aggregate_reading (Inr [\<lparr>Name = ''all'', BytesSent = 50, BytesRecv = 160\<rparr>]) \<and>
   lastNetworkTime (monitor_after
     [(Inr [\<lparr>Name = ''all'', BytesSent = 0, BytesRecv = 100\<rparr>], 5000000000),
      (Inl (SensorError ''net''), 10000000000)] (NewSystemMonitor 0)) = 5000000000 \<and>
   lastNetworkTime (snd (getNetworkSpeed
     (monitor_after
        [(Inr [\<lparr>Name = ''all'', BytesSent = 0, BytesRecv = 100\<rparr>], 5000000000),
         (Inl (SensorError ''net''), 10000000000)] (NewSystemMonitor 0))
     (Inr [\<lparr>Name = ''all'', BytesSent = 50, BytesRecv = 160\<rparr>]) 15000000000)) = 15000000000 \<and>
   lastNetworkStats (snd (getNetworkSpeed
     (monitor_after
        [(Inr [\<lparr>Name = ''all'', BytesSent = 0, BytesRecv = 100\<rparr>], 5000000000),
         (Inl (SensorError ''net''), 10000000000)] (NewSystemMonitor 0))
     (Inr [\<lparr>Name = ''all'', BytesSent = 50, BytesRecv = 160\<rparr>]) 15000000000)) ''all''
     = Some \<lparr>Name = ''all'', BytesSent = 50, BytesRecv = 160\<rparr> \<and>
   lastNetworkStats (snd (getNetworkSpeed
     (monitor_after
        [(Inr [\<lparr>Name = ''all'', BytesSent = 0, BytesRecv = 100\<rparr>], 5000000000),
         (Inl (SensorError ''net''), 10000000000)] (NewSystemMonitor 0))
     (Inr [\<lparr>Name = ''all'', BytesSent = 50, BytesRecv = 160\<rparr>]) 15000000000)) ''eth0''
     = None"
proof -
  let ?calls = "[(Inr [\<lparr>Name = ''all'', BytesSent = 0, BytesRecv = 100\<rparr>], 5000000000),
      (Inl (SensorError ''net''), 10000000000)] :: ((error + IOCountersStat list) \<times> time) list"
  let ?sm = "monitor_after ?calls (NewSystemMonitor 0)"
  let ?netStats = "[\<lparr>Name = ''all'', BytesSent = 50, BytesRecv = 160\<rparr>]"
  have h1: "list_all (\<lambda>call. aggregate_reading (fst call)) ?calls"
    by (simp add: aggregate_reading_def)
  have h3: "aggregate_reading (Inr ?netStats)"
    by (simp add: aggregate_reading_def)
  have t: "lastNetworkTime ?sm = 5000000000"
    by (simp add: getNetworkSpeed_def NewSystemMonitor_def Sub_Seconds_def)
  then have h4: "15000000000 \<noteq> lastNetworkTime ?sm"
    by simp
  from getNetworkSpeed_replaces_baselines [OF h1 refl h3 h4]
  have "lastNetworkTime (snd (getNetworkSpeed ?sm (Inr ?netStats) 15000000000)) = 15000000000"
    and "lastNetworkStats (snd (getNetworkSpeed ?sm (Inr ?netStats) 15000000000)) ''all''
      = lastSample ''all'' ?netStats"
    and "lastNetworkStats (snd (getNetworkSpeed ?sm (Inr ?netStats) 15000000000)) ''eth0''
      = lastSample ''eth0'' ?netStats"
    by blast+
  with h1 h3 t show ?thesis
    by simp
qed

subsection \<open>The metric collector\<close>

lemma sumDiskUsage_eq:
  "sumDiskUsage usage parts (t0, n) =
     (t0 + sum_list (successfulUsages usage parts),
      n + int (length (successfulUsages usage parts)))"
  unfolding successfulUsages_def
  by (induction parts arbitrary: t0 n) (auto split: sum.splits)

lemma successfulUsages_all_fail:
  "\<forall>p \<in> set parts. isl (usage (Mountpoint p)) \<Longrightarrow> successfulUsages usage parts = []"
  unfolding successfulUsages_def
  by (induction parts) (auto split: sum.splits)

lemma collectDisk_Inr:
  "collectDisk (Inr parts) usage metrics =
     (if successfulUsages usage parts = [] then metrics
      else metrics\<lparr>Disk := round2 (mean (successfulUsages usage parts))\<rparr>)"
  by (simp add: collectDisk_def sumDiskUsage_eq mean_def)

text \<open>Each block writes its own field only.\<close>

lemma collectCPU_fields [simp]:
  "Memory (collectCPU r m) = Memory m" "Disk (collectCPU r m) = Disk m"
  "Upload (collectCPU r m) = Upload m" "Download (collectCPU r m) = Download m"
  by (simp_all add: collectCPU_def split: sum.splits)

lemma collectMemory_fields [simp]:
  "CPU (collectMemory r m) = CPU m" "Disk (collectMemory r m) = Disk m"
  "Upload (collectMemory r m) = Upload m" "Download (collectMemory r m) = Download m"
  by (simp_all add: collectMemory_def split: sum.splits)

lemma collectDisk_fields [simp]:
  "CPU (collectDisk r u m) = CPU m" "Memory (collectDisk r u m) = Memory m"
  "Upload (collectDisk r u m) = Upload m" "Download (collectDisk r u m) = Download m"
  by (simp_all add: collectDisk_def split: sum.splits prod.splits)

lemma collectNetwork_fields [simp]:
  "CPU (collectNetwork r m) = CPU m" "Memory (collectNetwork r m) = Memory m"
  "Disk (collectNetwork r m) = Disk m"
  by (simp_all add: collectNetwork_def split: sum.splits prod.splits)

lemma newSystemMetrics_fields [simp]:
  "CPU (newSystemMetrics t) = 0" "Memory (newSystemMetrics t) = 0"
  "Disk (newSystemMetrics t) = 0" "Upload (newSystemMetrics t) = 0"
  "Download (newSystemMetrics t) = 0"
  by (simp_all add: newSystemMetrics_def)

lemma CollectSystemMetrics_blocks:
  "fst (fst (CollectSystemMetrics sm os)) =
     collectNetwork (fst (getNetworkSpeed sm (net_IOCounters os) (time_Now os)))
       (collectDisk (disk_Partitions os) (disk_Usage os)
         (collectMemory (mem_VirtualMemory os)
           (collectCPU (cpu_Percent os) (newSystemMetrics (time_Now os)))))"
  "snd (fst (CollectSystemMetrics sm os)) = None"
  "snd (CollectSystemMetrics sm os) = snd (getNetworkSpeed sm (net_IOCounters os) (time_Now os))"
  by (simp_all add: CollectSystemMetrics_def Let_def split: prod.splits)

lemma CPU_of_CollectSystemMetrics:
  "CPU (fst (fst (CollectSystemMetrics sm os))) =
     (case cpu_Percent os of
        Inl e \<Rightarrow> 0
      | Inr cpuPercent \<Rightarrow> if cpuPercent = [] then 0 else round2 (cpuPercent ! 0))"
  by (simp add: CollectSystemMetrics_blocks collectCPU_def split: sum.splits)

lemma Memory_of_CollectSystemMetrics:
  "Memory (fst (fst (CollectSystemMetrics sm os))) =
     (case mem_VirtualMemory os of Inl e \<Rightarrow> 0 | Inr usedPercent \<Rightarrow> round2 usedPercent)"
  by (simp add: CollectSystemMetrics_blocks collectMemory_def split: sum.splits)

lemma Disk_of_CollectSystemMetrics:
  "Disk (fst (fst (CollectSystemMetrics sm os))) =
     (case disk_Partitions os of
        Inl e \<Rightarrow> 0
      | Inr parts \<Rightarrow>
          if successfulUsages (disk_Usage os) parts = [] then 0
          else round2 (mean (successfulUsages (disk_Usage os) parts)))"
  by (cases "disk_Partitions os")
    (simp_all add: CollectSystemMetrics_blocks collectDisk_Inr, simp add: collectDisk_def)

lemma Network_of_CollectSystemMetrics:
  "(Upload (fst (fst (CollectSystemMetrics sm os))),
    Download (fst (fst (CollectSystemMetrics sm os)))) =
     (case fst (getNetworkSpeed sm (net_IOCounters os) (time_Now os)) of
        Inl e \<Rightarrow> (0, 0)
      | Inr speeds \<Rightarrow> speeds)"
  by (simp add: CollectSystemMetrics_blocks collectNetwork_def split: sum.splits prod.splits)

text \<open>
  C6. \<^verbatim>\<open>CollectSystemMetrics\<close> never fails: whatever the four sub-measurements
  return, the error of the result is \<^verbatim>\<open>nil\<close>; a sub-measurement that failed leaves 0
  in its field (a failed \<^verbatim>\<open>net.IOCounters\<close> makes \<^verbatim>\<open>getNetworkSpeed\<close> fail, which
  zeroes both rates); and a sub-measurement that succeeded puts its own rounded value
  in its field, whatever the others did.
\<close>

theorem CollectSystemMetrics_never_fails:
  "snd (fst (CollectSystemMetrics sm os)) = None \<and>
   (isl (cpu_Percent os) \<longrightarrow> CPU (fst (fst (CollectSystemMetrics sm os))) = 0) \<and>
   (isl (mem_VirtualMemory os) \<longrightarrow> Memory (fst (fst (CollectSystemMetrics sm os))) = 0) \<and>
   (isl (disk_Partitions os) \<longrightarrow> Disk (fst (fst (CollectSystemMetrics sm os))) = 0) \<and>
   (isl (fst (getNetworkSpeed sm (net_IOCounters os) (time_Now os))) \<longrightarrow>
      Upload (fst (fst (CollectSystemMetrics sm os))) = 0 \<and>
      Download (fst (fst (CollectSystemMetrics sm os))) = 0) \<and>
   (isl (net_IOCounters os) \<longrightarrow>
      isl (fst (getNetworkSpeed sm (net_IOCounters os) (time_Now os)))) \<and>
   (\<forall>cpuPercent. cpu_Percent os = Inr cpuPercent \<and> cpuPercent \<noteq> [] \<longrightarrow>
      CPU (fst (fst (CollectSystemMetrics sm os))) = round2 (cpuPercent ! 0)) \<and>
   (\<forall>usedPercent. mem_VirtualMemory os = Inr usedPercent \<longrightarrow>
      Memory (fst (fst (CollectSystemMetrics sm os))) = round2 usedPercent) \<and>
   (\<forall>parts. disk_Partitions os = Inr parts \<and> successfulUsages (disk_Usage os) parts \<noteq> [] \<longrightarrow>
      Disk (fst (fst (CollectSystemMetrics sm os))) =
        round2 (mean (successfulUsages (disk_Usage os) parts))) \<and>
   (\<forall>up down. fst (getNetworkSpeed sm (net_IOCounters os) (time_Now os)) = Inr (up, down) \<longrightarrow>
      Upload (fst (fst (CollectSystemMetrics sm os))) = up \<and>
      Download (fst (fst (CollectSystemMetrics sm os))) = down)"
proof (intro conjI)
  show "snd (fst (CollectSystemMetrics sm os)) = None"
    by (simp add: CollectSystemMetrics_blocks)
  show "isl (cpu_Percent os) \<longrightarrow> CPU (fst (fst (CollectSystemMetrics sm os))) = 0"
    by (auto simp: CPU_of_CollectSystemMetrics isl_def)
  show "isl (mem_VirtualMemory os) \<longrightarrow> Memory (fst (fst (CollectSystemMetrics sm os))) = 0"
    by (auto simp: Memory_of_CollectSystemMetrics isl_def)
  show "isl (disk_Partitions os) \<longrightarrow> Disk (fst (fst (CollectSystemMetrics sm os))) = 0"
    by (auto simp: Disk_of_CollectSystemMetrics isl_def)
  show "isl (fst (getNetworkSpeed sm (net_IOCounters os) (time_Now os))) \<longrightarrow>
      Upload (fst (fst (CollectSystemMetrics sm os))) = 0 \<and>
      Download (fst (fst (CollectSystemMetrics sm os))) = 0"
    using Network_of_CollectSystemMetrics [of sm os] by (auto simp: isl_def)
  show "isl (net_IOCounters os) \<longrightarrow>
      isl (fst (getNetworkSpeed sm (net_IOCounters os) (time_Now os)))"
    by (auto simp: isl_def getNetworkSpeed_Inl)
  show "\<forall>cpuPercent. cpu_Percent os = Inr cpuPercent \<and> cpuPercent \<noteq> [] \<longrightarrow>
      CPU (fst (fst (CollectSystemMetrics sm os))) = round2 (cpuPercent ! 0)"
    by (simp add: CPU_of_CollectSystemMetrics)
  show "\<forall>usedPercent. mem_VirtualMemory os = Inr usedPercent \<longrightarrow>
      Memory (fst (fst (CollectSystemMetrics sm os))) = round2 usedPercent"
    by (simp add: Memory_of_CollectSystemMetrics)
  show "\<forall>parts. disk_Partitions os = Inr parts \<and> successfulUsages (disk_Usage os) parts \<noteq> [] \<longrightarrow>
      Disk (fst (fst (CollectSystemMetrics sm os))) =
        round2 (mean (successfulUsages (disk_Usage os) parts))"
    by (simp add: Disk_of_CollectSystemMetrics)
  show "\<forall>up down. fst (getNetworkSpeed sm (net_IOCounters os) (time_Now os)) = Inr (up, down) \<longrightarrow>
      Upload (fst (fst (CollectSystemMetrics sm os))) = up \<and>
      Download (fst (fst (CollectSystemMetrics sm os))) = down"
    using Network_of_CollectSystemMetrics [of sm os] by auto
qed

lemma successfulUsages_readings_ok:
  "successfulUsages (disk_Usage readings_ok)
     [\<lparr>Device = ''sda1'', Mountpoint = ''/''\<rparr>, \<lparr>Device = ''sr0'', Mountpoint = ''/mnt''\<rparr>,
      \<lparr>Device = ''sdb1'', Mountpoint = ''/data''\<rparr>] = [40, 121 / 2]"
  by (simp add: successfulUsages_def readings_ok_def example_usage_def)

lemma getNetworkSpeed_readings_ok:
  "getNetworkSpeed example_monitor (net_IOCounters readings_ok) (time_Now readings_ok) =
     (Inr (3 / 2, 1 / 4),
      \<lparr>lastNetworkStats = [''all'' \<mapsto> \<lparr>Name = ''all'', BytesSent = 3145728, BytesRecv = 524388\<rparr>],
       lastNetworkTime = 2000000000\<rparr>)"
  by (simp add: getNetworkSpeed_def readings_ok_def example_monitor_def round2_def
      math_Round_def Sub_Seconds_def)

text \<open>
  The theorem at a cycle in which all four sensors fail (all five fields are 0) and at
  a cycle in which all four answer (12.345 becomes 12.35, 50.126 becomes 50.13, the
  mean of 40 and 60.5 is 50.25, the rates are 1.5 and 0.25).
\<close>

theorem CollectSystemMetrics_never_fails_witness:
  "snd (fst (CollectSystemMetrics example_monitor readings_all_fail)) = None \<and>
   isl (cpu_Percent readings_all_fail) \<and> isl (mem_VirtualMemory readings_all_fail) \<and>
   isl (disk_Partitions readings_all_fail) \<and> isl (net_IOCounters readings_all_fail) \<and>
   CPU (fst (fst (CollectSystemMetrics example_monitor readings_all_fail))) = 0 \<and>
   Memory (fst (fst (CollectSystemMetrics example_monitor readings_all_fail))) = 0 \<and>
   Disk (fst (fst (CollectSystemMetrics example_monitor readings_all_fail))) = 0 \<and>
   Upload (fst (fst (CollectSystemMetrics example_monitor readings_all_fail))) = 0 \<and>
   Download (fst (fst (CollectSystemMetrics example_monitor readings_all_fail))) = 0 \<and>
   snd (fst (CollectSystemMetrics example_monitor readings_ok)) = None \<and>
   CPU (fst (fst (CollectSystemMetrics example_monitor readings_ok))) = 1235 / 100 \<and>
   Memory (fst (fst (CollectSystemMetrics example_monitor readings_ok))) = 5013 / 100 \<and>
   Disk (fst (fst (CollectSystemMetrics example_monitor readings_ok))) = 5025 / 100 \<and>
   Upload (fst (fst (CollectSystemMetrics example_monitor readings_ok))) = 3 / 2 \<and>
   Download (fst (fst (CollectSystemMetrics example_monitor readings_ok))) = 1 / 4"
proof -
  have fail: "isl (cpu_Percent readings_all_fail)" "isl (mem_VirtualMemory readings_all_fail)"
    "isl (disk_Partitions readings_all_fail)" "isl (net_IOCounters readings_all_fail)"
    by (simp_all add: readings_all_fail_def)
  have ok: "cpu_Percent readings_ok = Inr [2469 / 200] \<and> [2469 / 200 :: real] \<noteq> []"
    "mem_VirtualMemory readings_ok = Inr (50126 / 1000)"
    "disk_Partitions readings_ok =
       Inr [\<lparr>Device = ''sda1'', Mountpoint = ''/''\<rparr>, \<lparr>Device = ''sr0'', Mountpoint = ''/mnt''\<rparr>,
            \<lparr>Device = ''sdb1'', Mountpoint = ''/data''\<rparr>]"
    by (simp_all add: readings_ok_def)
  have ne: "successfulUsages (disk_Usage readings_ok)
     [\<lparr>Device = ''sda1'', Mountpoint = ''/''\<rparr>, \<lparr>Device = ''sr0'', Mountpoint = ''/mnt''\<rparr>,
      \<lparr>Device = ''sdb1'', Mountpoint = ''/data''\<rparr>] \<noteq> []"
    by (simp add: successfulUsages_readings_ok)
  have net: "fst (getNetworkSpeed example_monitor (net_IOCounters readings_ok)
      (time_Now readings_ok)) = Inr (3 / 2, 1 / 4)"
    by (simp add: getNetworkSpeed_readings_ok)
  note all_fail = CollectSystemMetrics_never_fails [of example_monitor readings_all_fail]
  note all_ok = CollectSystemMetrics_never_fails [of example_monitor readings_ok]
  from all_fail fail
  have f: "snd (fst (CollectSystemMetrics example_monitor readings_all_fail)) = None"
    "CPU (fst (fst (CollectSystemMetrics example_monitor readings_all_fail))) = 0"
    "Memory (fst (fst (CollectSystemMetrics example_monitor readings_all_fail))) = 0"
    "Disk (fst (fst (CollectSystemMetrics example_monitor readings_all_fail))) = 0"
    "Upload (fst (fst (CollectSystemMetrics example_monitor readings_all_fail))) = 0"
    "Download (fst (fst (CollectSystemMetrics example_monitor readings_all_fail))) = 0"
    by blast+
  from all_ok have e: "snd (fst (CollectSystemMetrics example_monitor readings_ok)) = None"
    by blast
  from all_ok ok(1)
  have "CPU (fst (fst (CollectSystemMetrics example_monitor readings_ok))) =
      round2 ([2469 / 200] ! 0)"
    by blast
  then have c: "CPU (fst (fst (CollectSystemMetrics example_monitor readings_ok))) = 1235 / 100"
    by (simp add: round2_def math_Round_def)
  from all_ok ok(2)
  have "Memory (fst (fst (CollectSystemMetrics example_monitor readings_ok))) =
      round2 (50126 / 1000)"
    by blast
  then have m: "Memory (fst (fst (CollectSystemMetrics example_monitor readings_ok))) = 5013 / 100"
    by (simp add: round2_def math_Round_def)
  from all_ok ok(3) ne
  have "Disk (fst (fst (CollectSystemMetrics example_monitor readings_ok))) =
      round2 (mean (successfulUsages (disk_Usage readings_ok)
        [\<lparr>Device = ''sda1'', Mountpoint = ''/''\<rparr>, \<lparr>Device = ''sr0'', Mountpoint = ''/mnt''\<rparr>,
         \<lparr>Device = ''sdb1'', Mountpoint = ''/data''\<rparr>]))"
    by blast
  then have d: "Disk (fst (fst (CollectSystemMetrics example_monitor readings_ok))) = 5025 / 100"
    by (simp add: successfulUsages_readings_ok round2_def math_Round_def mean_def)
  from all_ok net
  have n: "Upload (fst (fst (CollectSystemMetrics example_monitor readings_ok))) = 3 / 2"
    "Download (fst (fst (CollectSystemMetrics example_monitor readings_ok))) = 1 / 4"
    by blast+
  from fail f e c m d n show ?thesis
    by (intro conjI)
qed

text \<open>
  C7. When the partition listing succeeds, the Disk field is the arithmetic mean of the
  used-percent of exactly those partitions whose usage lookup succeeds, rounded to two
  decimal places (partitions whose lookup fails are skipped, not counted as zero);
  where no lookup succeeds there is no mean, and the field is 0.
\<close>

theorem CollectSystemMetrics_Disk_mean:
  assumes "disk_Partitions os = Inr parts"
  shows "Disk (fst (fst (CollectSystemMetrics sm os))) =
      (if successfulUsages (disk_Usage os) parts = [] then 0
       else round2 (mean (successfulUsages (disk_Usage os) parts))) \<and>
    (successfulUsages (disk_Usage os) parts \<noteq> [] \<longrightarrow>
       rounded_to_2_decimals (mean (successfulUsages (disk_Usage os) parts))
         (Disk (fst (fst (CollectSystemMetrics sm os)))))"
  using assms by (simp add: Disk_of_CollectSystemMetrics round2_rounded)

text \<open>The theorem at three partitions of which the second cannot be read: the mean
  of 40 and 60.5, not of 40, 0 and 60.5.\<close>

theorem CollectSystemMetrics_Disk_mean_witness:
  "disk_Partitions readings_ok =
     Inr [\<lparr>Device = ''sda1'', Mountpoint = ''/''\<rparr>, \<lparr>Device = ''sr0'', Mountpoint = ''/mnt''\<rparr>,
          \<lparr>Device = ''sdb1'', Mountpoint = ''/data''\<rparr>] \<and>
   successfulUsages (disk_Usage readings_ok)
     [\<lparr>Device = ''sda1'', Mountpoint = ''/''\<rparr>, \<lparr>Device = ''sr0'', Mountpoint = ''/mnt''\<rparr>,
      \<lparr>Device = ''sdb1'', Mountpoint = ''/data''\<rparr>] = [40, 121 / 2] \<and>
   Disk (fst (fst (CollectSystemMetrics example_monitor readings_ok))) = 201 / 4"
proof -
  have parts: "disk_Partitions readings_ok =
     Inr [\<lparr>Device = ''sda1'', Mountpoint = ''/''\<rparr>, \<lparr>Device = ''sr0'', Mountpoint = ''/mnt''\<rparr>,
          \<lparr>Device = ''sdb1'', Mountpoint = ''/data''\<rparr>]"
    by (simp add: readings_ok_def)
  have "round2 (mean [40, 121 / 2]) = 201 / 4"
    by (simp add: round2_def math_Round_def mean_def)
  with CollectSystemMetrics_Disk_mean [OF parts, of example_monitor] parts
  show ?thesis
    by (simp add: successfulUsages_readings_ok)
qed

text \<open>
  C8. When the elapsed time between two rate samples is zero, \<^verbatim>\<open>getNetworkSpeed\<close>
  (given a reading of the counters) fails with the error "time difference is zero" and
  leaves the monitor as it was; the collection cycle then reports Upload and Download
  as 0 and still returns the record with a \<^verbatim>\<open>nil\<close> error.
\<close>

theorem CollectSystemMetrics_degenerate_interval:
  assumes "Sub_Seconds (time_Now os) (lastNetworkTime sm) = 0"
  shows "(\<forall>netStats. net_IOCounters os = Inr netStats \<longrightarrow>
       getNetworkSpeed sm (net_IOCounters os) (time_Now os) = (Inl TimeDifferenceIsZero, sm)) \<and>
     Upload (fst (fst (CollectSystemMetrics sm os))) = 0 \<and>
     Download (fst (fst (CollectSystemMetrics sm os))) = 0 \<and>
     snd (fst (CollectSystemMetrics sm os)) = None"
proof -
  have fails: "isl (fst (getNetworkSpeed sm (net_IOCounters os) (time_Now os)))"
    using assms
    by (cases "net_IOCounters os") (simp_all add: getNetworkSpeed_Inl getNetworkSpeed_zero)
  have "Upload (fst (fst (CollectSystemMetrics sm os))) = 0 \<and>
     Download (fst (fst (CollectSystemMetrics sm os))) = 0"
    using Network_of_CollectSystemMetrics [of sm os] fails by (auto simp: isl_def)
  with assms show ?thesis
    by (simp add: getNetworkSpeed_zero CollectSystemMetrics_blocks)
qed

text \<open>The theorem at a cycle whose clock reads the instant of the last sample.\<close>

theorem CollectSystemMetrics_degenerate_interval_witness:
  "Sub_Seconds (time_Now readings_same_instant) (lastNetworkTime example_monitor) = 0 \<and>
   net_IOCounters readings_same_instant
     = Inr [\<lparr>Name = ''all'', BytesSent = 3145728, BytesRecv = 524388\<rparr>] \<and>
   getNetworkSpeed example_monitor (net_IOCounters readings_same_instant)
     (time_Now readings_same_instant) = (Inl TimeDifferenceIsZero, example_monitor) \<and>
   Upload (fst (fst (CollectSystemMetrics example_monitor readings_same_instant))) = 0 \<and>
   Download (fst (fst (CollectSystemMetrics example_monitor readings_same_instant))) = 0 \<and>
   snd (fst (CollectSystemMetrics example_monitor readings_same_instant)) = None"
proof -
  have zero: "Sub_Seconds (time_Now readings_same_instant) (lastNetworkTime example_monitor) = 0"
    by (simp add: readings_same_instant_def example_monitor_def Sub_Seconds_def)
  have io: "net_IOCounters readings_same_instant
     = Inr [\<lparr>Name = ''all'', BytesSent = 3145728, BytesRecv = 524388\<rparr>]"
    by (simp add: readings_same_instant_def readings_ok_def)
  from CollectSystemMetrics_degenerate_interval [OF zero] zero io show ?thesis
    by blast
qed

text \<open>
  C10. When the partition listing succeeds, the count by which the mean divides is the
  number of usage lookups that succeeded. So when every lookup fails the loop counts no
  partition, the guard \<^verbatim>\<open>partitionCount > 0\<close> is false, the disk block leaves the record
  as it is (the division by the count is not reached) and the Disk field of the result
  is 0.
\<close>

theorem CollectSystemMetrics_no_partition_counted:
  assumes "disk_Partitions os = Inr parts"
  shows "snd (sumDiskUsage (disk_Usage os) parts (0, 0)) =
       int (length (successfulUsages (disk_Usage os) parts)) \<and>
     ((\<forall>p \<in> set parts. isl (disk_Usage os (Mountpoint p))) \<longrightarrow>
        snd (sumDiskUsage (disk_Usage os) parts (0, 0)) = 0 \<and>
        collectDisk (disk_Partitions os) (disk_Usage os) metrics = metrics \<and>
        Disk (fst (fst (CollectSystemMetrics sm os))) = 0)"
  using assms
  by (simp add: sumDiskUsage_eq successfulUsages_all_fail collectDisk_Inr
      Disk_of_CollectSystemMetrics)

text \<open>The theorem at three listed partitions none of which can be read.\<close>

theorem CollectSystemMetrics_no_partition_counted_witness:
  "disk_Partitions readings_no_usage =
     Inr [\<lparr>Device = ''sda1'', Mountpoint = ''/''\<rparr>, \<lparr>Device = ''sr0'', Mountpoint = ''/mnt''\<rparr>,
          \<lparr>Device = ''sdb1'', Mountpoint = ''/data''\<rparr>] \<and>
   isl (disk_Usage readings_no_usage ''/'') \<and> isl (disk_Usage readings_no_usage ''/mnt'') \<and>
   isl (disk_Usage readings_no_usage ''/data'') \<and>
   snd (sumDiskUsage (disk_Usage readings_no_usage)
          [\<lparr>Device = ''sda1'', Mountpoint = ''/''\<rparr>, \<lparr>Device = ''sr0'', Mountpoint = ''/mnt''\<rparr>,
           \<lparr>Device = ''sdb1'', Mountpoint = ''/data''\<rparr>] (0, 0)) = 0 \<and>
   Disk (fst (fst (CollectSystemMetrics example_monitor readings_no_usage))) = 0"
proof -
  have parts: "disk_Partitions readings_no_usage =
     Inr [\<lparr>Device = ''sda1'', Mountpoint = ''/''\<rparr>, \<lparr>Device = ''sr0'', Mountpoint = ''/mnt''\<rparr>,
          \<lparr>Device = ''sdb1'', Mountpoint = ''/data''\<rparr>]"
    by (simp add: readings_no_usage_def readings_ok_def)
  have fail: "\<forall>p \<in> set [\<lparr>Device = ''sda1'', Mountpoint = ''/''\<rparr>,
      \<lparr>Device = ''sr0'', Mountpoint = ''/mnt''\<rparr>, \<lparr>Device = ''sdb1'', Mountpoint = ''/data''\<rparr>].
      isl (disk_Usage readings_no_usage (Mountpoint p))"
    by (simp add: readings_no_usage_def)
  have each: "isl (disk_Usage readings_no_usage ''/'')"
    "isl (disk_Usage readings_no_usage ''/mnt'')" "isl (disk_Usage readings_no_usage ''/data'')"
    by (simp_all add: readings_no_usage_def)
  from CollectSystemMetrics_no_partition_counted [OF parts, of _ example_monitor]
    parts fail each
  show ?thesis
    by blast
qed

subsection \<open>The alert evaluator\<close>

lemma fold_max_ge: "n \<le> fold max ids (n::nat)"
  by (induction ids arbitrary: n) (auto intro: order_trans [OF max.cobounded2])

lemma fold_max_mem: "x \<in> set ids \<Longrightarrow> x \<le> fold max ids (n::nat)"
proof (induction ids arbitrary: n)
  case Nil
  then show ?case by simp
next
  case (Cons i ids)
  show ?case
  proof (cases "x = i")
    case True
    have "i \<le> max i n" by simp
    also have "\<dots> \<le> fold max ids (max i n)" by (rule fold_max_ge)
    finally show ?thesis using True by simp
  next
    case False
    with Cons show ?thesis by simp
  qed
qed

lemma next_id_fresh: "next_id seq ids \<notin> set ids"
  using fold_max_mem [of "next_id seq ids" ids seq] by (auto simp: next_id_def)

lemma next_id_nonzero: "next_id seq ids \<noteq> 0"
  by (simp add: next_id_def)

lemma fold_least_mem:
  "fold (\<lambda>b c. if a_ID b < a_ID c then b else c) as a \<in> set (a # as)"
  by (induction as arbitrary: a) (auto split: if_splits)

text \<open>A lookup that runs reports an error only when no row matches; a lookup that
  gives a row has run.\<close>

lemma Where_First_Inl:
  "Where_First None typ status db = Inl err \<Longrightarrow>
   filter (\<lambda>a. Type a = typ \<and> Status a = status) (alerts db) = []"
  by (simp add: Where_First_def split: list.splits)

lemma Where_First_Inr:
  assumes "Where_First failure typ status db = Inr e"
  shows "e \<in> set (alerts db) \<and> Type e = typ \<and> Status e = status"
proof -
  let ?P = "\<lambda>a. Type a = typ \<and> Status a = status"
  from assms obtain a as where f: "filter ?P (alerts db) = a # as"
    and e: "e = fold (\<lambda>b c. if a_ID b < a_ID c then b else c) as a"
    by (auto simp: Where_First_def split: option.splits list.splits)
  from e have "e \<in> set (a # as)" by (simp only: fold_least_mem)
  with f have "e \<in> set (filter ?P (alerts db))" by simp
  then show ?thesis by simp
qed

lemma filter_map_le:
  "(\<forall>r \<in> set xs. P (g r) \<longrightarrow> P r) \<Longrightarrow> length (filter P (map g xs)) \<le> length (filter P xs)"
  by (induction xs) auto

lemma Save_alert_existing:
  assumes "e \<in> set (alerts db)" and "primary_key_alerts db" and "a_ID e' = a_ID e"
  shows "alerts (Save_alert now e' db) =
     map (\<lambda>r. if a_ID r = a_ID e then e'\<lparr>a_UpdatedAt := now\<rparr> else r) (alerts db)"
  using assms by (auto simp: Save_alert_def primary_key_alerts_def)

lemma active_count_Save:
  assumes "e \<in> set (alerts db)" and "primary_key_alerts db" and "a_ID e' = a_ID e"
    and "Type e' = Type e" and "Status e' = ''active'' \<longrightarrow> Status e = ''active''"
  shows "active_count k (Save_alert now e' db) \<le> active_count k db"
proof -
  have "r = e" if "r \<in> set (alerts db)" "a_ID r = a_ID e" for r
    using that assms(1,2) by (auto simp: primary_key_alerts_def distinct_map inj_on_def)
  then have "\<forall>r \<in> set (alerts db).
      (\<lambda>a. Type a = k \<and> Status a = ''active'')
        ((\<lambda>r. if a_ID r = a_ID e then e'\<lparr>a_UpdatedAt := now\<rparr> else r) r) \<longrightarrow>
      (\<lambda>a. Type a = k \<and> Status a = ''active'') r"
    using assms(4,5) by auto
  then show ?thesis
    unfolding active_count_def Save_alert_existing [OF assms(1-3)]
    by (rule filter_map_le)
qed

lemma primary_key_Save:
  assumes "e \<in> set (alerts db)" and "primary_key_alerts db" and "a_ID e' = a_ID e"
  shows "primary_key_alerts (Save_alert now e' db)"
proof -
  let ?g = "\<lambda>r. if a_ID r = a_ID e then e'\<lparr>a_UpdatedAt := now\<rparr> else r"
  have same: "a_ID \<circ> ?g = a_ID"
    by (rule ext) (simp add: assms(3))
  have "map a_ID (alerts (Save_alert now e' db)) = map (a_ID \<circ> ?g) (alerts db)"
    by (simp only: Save_alert_existing [OF assms] map_map)
  also have "\<dots> = map a_ID (alerts db)"
    by (simp only: same)
  finally have "map a_ID (alerts (Save_alert now e' db)) = map a_ID (alerts db)" .
  with assms(2) show ?thesis
    by (simp only: primary_key_alerts_def simp_thms)
qed

lemma alerts_Create_log [simp]: "alerts (Create_log now l db) = alerts db"
  by (simp add: Create_log_def Let_def)

lemma active_count_Create_log [simp]: "active_count k (Create_log now l db) = active_count k db"
  by (simp add: active_count_def)

lemma primary_key_Create_log [simp]:
  "primary_key_alerts (Create_log now l db) = primary_key_alerts db"
  by (simp add: primary_key_alerts_def)

lemma primary_key_Create_alert:
  "primary_key_alerts db \<Longrightarrow> primary_key_alerts (Create_alert now a db)"
  using next_id_fresh [of "alerts_seq db" "map a_ID (alerts db)"]
    next_id_nonzero [of "alerts_seq db" "map a_ID (alerts db)"]
  by (simp add: primary_key_alerts_def Create_alert_def Let_def)

lemma active_count_Create_alert:
  "active_count k (Create_alert now a db) =
     active_count k db + (if Type a = k \<and> Status a = ''active'' then 1 else 0)"
  by (simp add: active_count_def Create_alert_def Let_def)

text \<open>
  One block of the evaluator keeps the number of active alerts of any type at one or
  below, provided its lookup runs whenever the value is above the threshold.
\<close>

lemma checkAlert_active_count:
  assumes "primary_key_alerts db" and "active_count k db \<le> 1"
    and "of_int alertThreshold < v \<longrightarrow> failure = None"
  shows "active_count k (checkAlert failure typ v alertThreshold now db) \<le> 1"
proof (cases "Where_First failure typ ''active'' db")
  case (Inl err)
  show ?thesis
  proof (cases "of_int alertThreshold < v")
    case True
    with assms(3) Inl have "Where_First None typ ''active'' db = Inl err"
      by simp
    from Where_First_Inl [OF this] have none: "active_count typ db = 0"
      by (simp add: active_count_def)
    show ?thesis
    proof (cases "k = typ")
      case True
      with none \<open>of_int alertThreshold < v\<close> show ?thesis
        by (simp add: checkAlert_def Inl active_count_Create_alert)
    next
      case False
      with assms(2) \<open>of_int alertThreshold < v\<close> show ?thesis
        by (simp add: checkAlert_def Inl active_count_Create_alert)
    qed
  next
    case False
    with assms(2) show ?thesis
      by (simp add: checkAlert_def Inl)
  qed
next
  case (Inr e)
  from Where_First_Inr [OF Inr] have e: "e \<in> set (alerts db)" "Type e = typ" "Status e = ''active''"
    by simp_all
  have "active_count k (Save_alert now
      (e\<lparr>Value := v, a_Message := UsageTooHigh typ v, a_UpdatedAt := now\<rparr>) db) \<le> active_count k db"
    by (rule active_count_Save [OF e(1) assms(1)]) (simp_all add: e)
  moreover have "active_count k (Save_alert now
      (e\<lparr>Status := ''resolved'', a_UpdatedAt := now\<rparr>) db) \<le> active_count k db"
    by (rule active_count_Save [OF e(1) assms(1)]) (simp_all add: e)
  ultimately show ?thesis
    using assms(2) by (simp add: checkAlert_def Inr)
qed

lemma checkAlert_primary_key:
  assumes "primary_key_alerts db"
  shows "primary_key_alerts (checkAlert failure typ v alertThreshold now db)"
proof (cases "Where_First failure typ ''active'' db")
  case (Inl err)
  with assms show ?thesis
    by (simp add: checkAlert_def primary_key_Create_alert)
next
  case (Inr e)
  from Where_First_Inr [OF Inr] have e: "e \<in> set (alerts db)"
    by simp
  show ?thesis
    by (simp add: checkAlert_def Inr primary_key_Save [OF e assms])
qed

text \<open>
  An evaluation in which every lookup runs keeps at most one active alert of each kind
  (in a store whose alerts have a primary key, which every evaluation keeps).
\<close>

lemma CheckAlerts_invariant_when_lookups_run:
  assumes "primary_key_alerts db" and "at_most_one_active db"
    and "failures ''cpu'' = None" and "failures ''memory'' = None"
    and "failures ''disk'' = None"
  shows "at_most_one_active (snd (CheckAlerts failures cfg metrics now db)) \<and>
     primary_key_alerts (snd (CheckAlerts failures cfg metrics now db)) \<and>
     fst (CheckAlerts failures cfg metrics now db) = None"
proof -
  define db1 where "db1 = checkAlert None ''cpu'' (CPU metrics) (AlertCPU cfg) now db"
  define db2 where "db2 = checkAlert None ''memory'' (Memory metrics) (AlertMemory cfg) now db1"
  define db3 where "db3 = checkAlert None ''disk'' (Disk metrics) (AlertDisk cfg) now db2"
  have res: "CheckAlerts failures cfg metrics now db = (None, db3)"
    by (simp add: CheckAlerts_def db1_def db2_def db3_def assms(3-5))
  have pk: "primary_key_alerts db1" "primary_key_alerts db2" "primary_key_alerts db3"
    unfolding db1_def db2_def db3_def by (intro checkAlert_primary_key assms(1))+
  have "active_count k db3 \<le> 1" if "active_count k db \<le> 1" for k
  proof -
    from that have "active_count k db1 \<le> 1"
      unfolding db1_def by (intro checkAlert_active_count [OF assms(1)]) simp_all
    then have "active_count k db2 \<le> 1"
      unfolding db2_def by (intro checkAlert_active_count [OF pk(1)]) simp_all
    then show ?thesis
      unfolding db3_def by (intro checkAlert_active_count [OF pk(2)]) simp_all
  qed
  with assms(2) have "at_most_one_active db3"
    by (simp add: at_most_one_active_def)
  with pk(3) show ?thesis
    by (simp add: res)
qed

text \<open>
  C2. The claim is that every invocation of \<^verbatim>\<open>CheckAlerts\<close> keeps at most one alert
  with status \<^verbatim>\<open>active\<close> per kind, because it looks up whether an active alert exists
  before it creates one. The code creates the alert whenever the lookup reports an
  error (\<^verbatim>\<open>result.Error != nil\<close>), which its comment reads as "no active alert, create
  a new one"; the error need not be that no record was found. Here the store holds one
  active CPU alert, the CPU is above its threshold, and the lookup of the CPU alerts
  fails because the database is locked: the evaluation creates a second active CPU
  alert, and the store no longer has at most one active alert per kind.
\<close>

theorem CheckAlerts_lookup_failure_duplicates:
  "primary_key_alerts store_one_active \<and> at_most_one_active store_one_active \<and>
   map (\<lambda>a. (a_ID a, Type a, Status a, Value a))
     (alerts (snd (CheckAlerts cpu_lookup_fails example_config metrics_high 20
        store_one_active)))
     = [(1, ''cpu'', ''active'', 85), (2, ''cpu'', ''active'', 90),
        (3, ''memory'', ''active'', 85)] \<and>
   active_count ''cpu''
     (snd (CheckAlerts cpu_lookup_fails example_config metrics_high 20 store_one_active)) = 2 \<and>
   \<not> at_most_one_active
     (snd (CheckAlerts cpu_lookup_fails example_config metrics_high 20 store_one_active))"
  by (simp add: primary_key_alerts_def at_most_one_active_def active_count_def
      CheckAlerts_def checkAlert_def Where_First_def Save_alert_def Create_alert_def
      Create_log_def next_id_def store_one_active_def metrics_high_def cpu_lookup_fails_def
      newSystemMetrics_def example_config_def Let_def)

subsection \<open>The example scenario\<close>

text \<open>The worlds of the scenario, step by step.\<close>

lemma world1_eq:
  "world1 = \<lparr>sysMon = \<lparr>lastNetworkStats = [''all'' \<mapsto> \<lparr>Name = ''all'',
      BytesSent = 0, BytesRecv = 100\<rparr>], lastNetworkTime = 5000000000\<rparr>,
     store = \<lparr>alerts = [],
       alerts_seq = 0,
       system_logs = [],
       system_logs_seq = 0,
       system_metrics = [\<lparr>m_ID = 1, m_Timestamp = 5000000000, CPU = 70, Memory = 50,
           Disk = 40, Upload = 0, Download = 0, m_CreatedAt = 5000000000,
           m_UpdatedAt = 5000000000\<rparr>],
       system_metrics_seq = 1\<rparr>,
     published = [SystemMetricsMessage \<lparr>m_ID = 1, m_Timestamp = 5000000000, CPU = 70,
         Memory = 50, Disk = 40, Upload = 0, Download = 0, m_CreatedAt = 5000000000,
         m_UpdatedAt = 5000000000\<rparr>]\<rparr>"
  by (simp add: world1_def world0_def example_monitor_def example_config_def no_failure_def cycle_def collectSystemMetrics_def
      CollectSystemMetrics_def getNetworkSpeed_def Sub_Seconds_def round2_def math_Round_def
      newSystemMetrics_def collectCPU_def collectMemory_def collectDisk_def collectNetwork_def
      SaveMetrics_def Create_metrics_def next_id_def CheckAlerts_def checkAlert_def
      Where_First_def Create_alert_def Create_log_def Save_alert_def Let_def)

lemma world2_eq:
  "world2 = \<lparr>sysMon = \<lparr>lastNetworkStats = [''all'' \<mapsto> \<lparr>Name = ''all'',
      BytesSent = 0, BytesRecv = 100\<rparr>], lastNetworkTime = 10000000000\<rparr>,
     store = \<lparr>alerts = [\<lparr>a_ID = 1, Type = ''cpu'', a_Level = ''warning'',
         a_Message = UsageTooHigh ''cpu'' 85, Value = 85, Threshold = 80, Status = ''active'',
         a_Timestamp = 10000000000, a_CreatedAt = 10000000000, a_UpdatedAt = 10000000000\<rparr>],
       alerts_seq = 1,
       system_logs = [\<lparr>l_ID = 1, l_Level = ''warning'', Category = ''system'',
           l_Message = UsageTooHigh ''cpu'' 85, l_Timestamp = 10000000000,
           l_CreatedAt = 10000000000\<rparr>],
       system_logs_seq = 1,
       system_metrics = [\<lparr>m_ID = 1, m_Timestamp = 5000000000, CPU = 70, Memory = 50,
           Disk = 40, Upload = 0, Download = 0, m_CreatedAt = 5000000000,
           m_UpdatedAt = 5000000000\<rparr>, \<lparr>m_ID = 2, m_Timestamp = 10000000000,
           CPU = 85, Memory = 50, Disk = 40, Upload = 0, Download = 0, m_CreatedAt = 10000000000,
           m_UpdatedAt = 10000000000\<rparr>],
       system_metrics_seq = 2\<rparr>,
     published = [SystemMetricsMessage \<lparr>m_ID = 1, m_Timestamp = 5000000000, CPU = 70,
         Memory = 50, Disk = 40, Upload = 0, Download = 0, m_CreatedAt = 5000000000,
         m_UpdatedAt = 5000000000\<rparr>, SystemMetricsMessage \<lparr>m_ID = 2,
         m_Timestamp = 10000000000, CPU = 85, Memory = 50, Disk = 40, Upload = 0, Download = 0,
         m_CreatedAt = 10000000000, m_UpdatedAt = 10000000000\<rparr>]\<rparr>"
  by (simp add: world2_def world1_eq example_config_def no_failure_def cycle_def collectSystemMetrics_def
      CollectSystemMetrics_def getNetworkSpeed_def Sub_Seconds_def round2_def math_Round_def
      newSystemMetrics_def collectCPU_def collectMemory_def collectDisk_def collectNetwork_def
      SaveMetrics_def Create_metrics_def next_id_def CheckAlerts_def checkAlert_def
      Where_First_def Create_alert_def Create_log_def Save_alert_def Let_def)

lemma world2_pushed_eq:
  "world2_pushed = \<lparr>sysMon = \<lparr>lastNetworkStats = [''all'' \<mapsto> \<lparr>Name = ''all'',
      BytesSent = 0, BytesRecv = 100\<rparr>], lastNetworkTime = 10000000000\<rparr>,
     store = \<lparr>alerts = [\<lparr>a_ID = 1, Type = ''cpu'', a_Level = ''warning'',
         a_Message = UsageTooHigh ''cpu'' 85, Value = 85, Threshold = 80, Status = ''active'',
         a_Timestamp = 10000000000, a_CreatedAt = 10000000000, a_UpdatedAt = 10000000000\<rparr>],
       alerts_seq = 1,
       system_logs = [\<lparr>l_ID = 1, l_Level = ''warning'', Category = ''system'',
           l_Message = UsageTooHigh ''cpu'' 85, l_Timestamp = 10000000000,
           l_CreatedAt = 10000000000\<rparr>],
       system_logs_seq = 1,
       system_metrics = [\<lparr>m_ID = 1, m_Timestamp = 5000000000, CPU = 70, Memory = 50,
           Disk = 40, Upload = 0, Download = 0, m_CreatedAt = 5000000000,
           m_UpdatedAt = 5000000000\<rparr>, \<lparr>m_ID = 2, m_Timestamp = 10000000000,
           CPU = 85, Memory = 50, Disk = 40, Upload = 0, Download = 0, m_CreatedAt = 10000000000,
           m_UpdatedAt = 10000000000\<rparr>],
       system_metrics_seq = 2\<rparr>,
     published = [SystemMetricsMessage \<lparr>m_ID = 1, m_Timestamp = 5000000000, CPU = 70,
         Memory = 50, Disk = 40, Upload = 0, Download = 0, m_CreatedAt = 5000000000,
         m_UpdatedAt = 5000000000\<rparr>, SystemMetricsMessage \<lparr>m_ID = 2,
         m_Timestamp = 10000000000, CPU = 85, Memory = 50, Disk = 40, Upload = 0, Download = 0,
         m_CreatedAt = 10000000000, m_UpdatedAt = 10000000000\<rparr>,
         SystemLogMessage [\<lparr>l_ID = 1, l_Level = ''warning'', Category = ''system'',
         l_Message = UsageTooHigh ''cpu'' 85, l_Timestamp = 10000000000,
         l_CreatedAt = 10000000000\<rparr>]]\<rparr>"
  by (simp add: world2_pushed_def world2_eq pushSystemLogs_def latestSystemLogs_def)

lemma world3_eq:
  "world3 = \<lparr>sysMon = \<lparr>lastNetworkStats = [''all'' \<mapsto> \<lparr>Name = ''all'',
      BytesSent = 0, BytesRecv = 100\<rparr>], lastNetworkTime = 15000000000\<rparr>,
     store = \<lparr>alerts = [\<lparr>a_ID = 1, Type = ''cpu'', a_Level = ''warning'',
         a_Message = UsageTooHigh ''cpu'' 90, Value = 90, Threshold = 80, Status = ''active'',
         a_Timestamp = 10000000000, a_CreatedAt = 10000000000, a_UpdatedAt = 15000000000\<rparr>],
       alerts_seq = 1,
       system_logs = [\<lparr>l_ID = 1, l_Level = ''warning'', Category = ''system'',
           l_Message = UsageTooHigh ''cpu'' 85, l_Timestamp = 10000000000,
           l_CreatedAt = 10000000000\<rparr>],
       system_logs_seq = 1,
       system_metrics = [\<lparr>m_ID = 1, m_Timestamp = 5000000000, CPU = 70, Memory = 50,
           Disk = 40, Upload = 0, Download = 0, m_CreatedAt = 5000000000,
           m_UpdatedAt = 5000000000\<rparr>, \<lparr>m_ID = 2, m_Timestamp = 10000000000,
           CPU = 85, Memory = 50, Disk = 40, Upload = 0, Download = 0, m_CreatedAt = 10000000000,
           m_UpdatedAt = 10000000000\<rparr>, \<lparr>m_ID = 3, m_Timestamp = 15000000000,
           CPU = 90, Memory = 50, Disk = 40, Upload = 0, Download = 0, m_CreatedAt = 15000000000,
           m_UpdatedAt = 15000000000\<rparr>],
       system_metrics_seq = 3\<rparr>,
     published = [SystemMetricsMessage \<lparr>m_ID = 1, m_Timestamp = 5000000000, CPU = 70,
         Memory = 50, Disk = 40, Upload = 0, Download = 0, m_CreatedAt = 5000000000,
         m_UpdatedAt = 5000000000\<rparr>, SystemMetricsMessage \<lparr>m_ID = 2,
         m_Timestamp = 10000000000, CPU = 85, Memory = 50, Disk = 40, Upload = 0, Download = 0,
         m_CreatedAt = 10000000000, m_UpdatedAt = 10000000000\<rparr>,
         SystemLogMessage [\<lparr>l_ID = 1, l_Level = ''warning'', Category = ''system'',
         l_Message = UsageTooHigh ''cpu'' 85, l_Timestamp = 10000000000,
         l_CreatedAt = 10000000000\<rparr>], SystemMetricsMessage \<lparr>m_ID = 3,
         m_Timestamp = 15000000000, CPU = 90, Memory = 50, Disk = 40, Upload = 0, Download = 0,
         m_CreatedAt = 15000000000, m_UpdatedAt = 15000000000\<rparr>]\<rparr>"
  by (simp add: world3_def world2_pushed_eq example_config_def no_failure_def cycle_def collectSystemMetrics_def
      CollectSystemMetrics_def getNetworkSpeed_def Sub_Seconds_def round2_def math_Round_def
      newSystemMetrics_def collectCPU_def collectMemory_def collectDisk_def collectNetwork_def
      SaveMetrics_def Create_metrics_def next_id_def CheckAlerts_def checkAlert_def
      Where_First_def Create_alert_def Create_log_def Save_alert_def Let_def)

lemma world4_eq:
  "world4 = \<lparr>sysMon = \<lparr>lastNetworkStats = [''all'' \<mapsto> \<lparr>Name = ''all'',
      BytesSent = 0, BytesRecv = 100\<rparr>], lastNetworkTime = 20000000000\<rparr>,
     store = \<lparr>alerts = [\<lparr>a_ID = 1, Type = ''cpu'', a_Level = ''warning'',
         a_Message = UsageTooHigh ''cpu'' 90, Value = 90, Threshold = 80, Status = ''resolved'',
         a_Timestamp = 10000000000, a_CreatedAt = 10000000000, a_UpdatedAt = 20000000000\<rparr>],
       alerts_seq = 1,
       system_logs = [\<lparr>l_ID = 1, l_Level = ''warning'', Category = ''system'',
           l_Message = UsageTooHigh ''cpu'' 85, l_Timestamp = 10000000000,
           l_CreatedAt = 10000000000\<rparr>, \<lparr>l_ID = 2, l_Level = ''info'',
           Category = ''system'', l_Message = UsageBackToNormal ''cpu'' 75,
           l_Timestamp = 20000000000, l_CreatedAt = 20000000000\<rparr>],
       system_logs_seq = 2,
       system_metrics = [\<lparr>m_ID = 1, m_Timestamp = 5000000000, CPU = 70, Memory = 50,
           Disk = 40, Upload = 0, Download = 0, m_CreatedAt = 5000000000,
           m_UpdatedAt = 5000000000\<rparr>, \<lparr>m_ID = 2, m_Timestamp = 10000000000,
           CPU = 85, Memory = 50, Disk = 40, Upload = 0, Download = 0, m_CreatedAt = 10000000000,
           m_UpdatedAt = 10000000000\<rparr>, \<lparr>m_ID = 3, m_Timestamp = 15000000000,
           CPU = 90, Memory = 50, Disk = 40, Upload = 0, Download = 0, m_CreatedAt = 15000000000,
           m_UpdatedAt = 15000000000\<rparr>, \<lparr>m_ID = 4, m_Timestamp = 20000000000,
           CPU = 75, Memory = 50, Disk = 40, Upload = 0, Download = 0, m_CreatedAt = 20000000000,
           m_UpdatedAt = 20000000000\<rparr>],
       system_metrics_seq = 4\<rparr>,
     published = [SystemMetricsMessage \<lparr>m_ID = 1, m_Timestamp = 5000000000, CPU = 70,
         Memory = 50, Disk = 40, Upload = 0, Download = 0, m_CreatedAt = 5000000000,
         m_UpdatedAt = 5000000000\<rparr>, SystemMetricsMessage \<lparr>m_ID = 2,
         m_Timestamp = 10000000000, CPU = 85, Memory = 50, Disk = 40, Upload = 0, Download = 0,
         m_CreatedAt = 10000000000, m_UpdatedAt = 10000000000\<rparr>,
         SystemLogMessage [\<lparr>l_ID = 1, l_Level = ''warning'', Category = ''system'',
         l_Message = UsageTooHigh ''cpu'' 85, l_Timestamp = 10000000000,
         l_CreatedAt = 10000000000\<rparr>], SystemMetricsMessage \<lparr>m_ID = 3,
         m_Timestamp = 15000000000, CPU = 90, Memory = 50, Disk = 40, Upload = 0, Download = 0,
         m_CreatedAt = 15000000000, m_UpdatedAt = 15000000000\<rparr>,
         SystemMetricsMessage \<lparr>m_ID = 4, m_Timestamp = 20000000000, CPU = 75, Memory = 50,
         Disk = 40, Upload = 0, Download = 0, m_CreatedAt = 20000000000,
         m_UpdatedAt = 20000000000\<rparr>]\<rparr>"
  by (simp add: world4_def world3_eq example_config_def no_failure_def cycle_def collectSystemMetrics_def
      CollectSystemMetrics_def getNetworkSpeed_def Sub_Seconds_def round2_def math_Round_def
      newSystemMetrics_def collectCPU_def collectMemory_def collectDisk_def collectNetwork_def
      SaveMetrics_def Create_metrics_def next_id_def CheckAlerts_def checkAlert_def
      Where_First_def Create_alert_def Create_log_def Save_alert_def Let_def)

lemma world4_pushed_eq:
  "world4_pushed = \<lparr>sysMon = \<lparr>lastNetworkStats = [''all'' \<mapsto> \<lparr>Name = ''all'',
      BytesSent = 0, BytesRecv = 100\<rparr>], lastNetworkTime = 20000000000\<rparr>,
     store = \<lparr>alerts = [\<lparr>a_ID = 1, Type = ''cpu'', a_Level = ''warning'',
         a_Message = UsageTooHigh ''cpu'' 90, Value = 90, Threshold = 80, Status = ''resolved'',
         a_Timestamp = 10000000000, a_CreatedAt = 10000000000, a_UpdatedAt = 20000000000\<rparr>],
       alerts_seq = 1,
       system_logs = [\<lparr>l_ID = 1, l_Level = ''warning'', Category = ''system'',
           l_Message = UsageTooHigh ''cpu'' 85, l_Timestamp = 10000000000,
           l_CreatedAt = 10000000000\<rparr>, \<lparr>l_ID = 2, l_Level = ''info'',
           Category = ''system'', l_Message = UsageBackToNormal ''cpu'' 75,
           l_Timestamp = 20000000000, l_CreatedAt = 20000000000\<rparr>],
       system_logs_seq = 2,
       system_metrics = [\<lparr>m_ID = 1, m_Timestamp = 5000000000, CPU = 70, Memory = 50,
           Disk = 40, Upload = 0, Download = 0, m_CreatedAt = 5000000000,
           m_UpdatedAt = 5000000000\<rparr>, \<lparr>m_ID = 2, m_Timestamp = 10000000000,
           CPU = 85, Memory = 50, Disk = 40, Upload = 0, Download = 0, m_CreatedAt = 10000000000,
           m_UpdatedAt = 10000000000\<rparr>, \<lparr>m_ID = 3, m_Timestamp = 15000000000,
           CPU = 90, Memory = 50, Disk = 40, Upload = 0, Download = 0, m_CreatedAt = 15000000000,
           m_UpdatedAt = 15000000000\<rparr>, \<lparr>m_ID = 4, m_Timestamp = 20000000000,
           CPU = 75, Memory = 50, Disk = 40, Upload = 0, Download = 0, m_CreatedAt = 20000000000,
           m_UpdatedAt = 20000000000\<rparr>],
       system_metrics_seq = 4\<rparr>,
     published = [SystemMetricsMessage \<lparr>m_ID = 1, m_Timestamp = 5000000000, CPU = 70,
         Memory = 50, Disk = 40, Upload = 0, Download = 0, m_CreatedAt = 5000000000,
         m_UpdatedAt = 5000000000\<rparr>, SystemMetricsMessage \<lparr>m_ID = 2,
         m_Timestamp = 10000000000, CPU = 85, Memory = 50, Disk = 40, Upload = 0, Download = 0,
         m_CreatedAt = 10000000000, m_UpdatedAt = 10000000000\<rparr>,
         SystemLogMessage [\<lparr>l_ID = 1, l_Level = ''warning'', Category = ''system'',
         l_Message = UsageTooHigh ''cpu'' 85, l_Timestamp = 10000000000,
         l_CreatedAt = 10000000000\<rparr>], SystemMetricsMessage \<lparr>m_ID = 3,
         m_Timestamp = 15000000000, CPU = 90, Memory = 50, Disk = 40, Upload = 0, Download = 0,
         m_CreatedAt = 15000000000, m_UpdatedAt = 15000000000\<rparr>,
         SystemMetricsMessage \<lparr>m_ID = 4, m_Timestamp = 20000000000, CPU = 75, Memory = 50,
         Disk = 40, Upload = 0, Download = 0, m_CreatedAt = 20000000000,
         m_UpdatedAt = 20000000000\<rparr>, SystemLogMessage [\<lparr>l_ID = 2,
         l_Level = ''info'', Category = ''system'', l_Message = UsageBackToNormal ''cpu'' 75,
         l_Timestamp = 20000000000, l_CreatedAt = 20000000000\<rparr>, \<lparr>l_ID = 1,
         l_Level = ''warning'', Category = ''system'', l_Message = UsageTooHigh ''cpu'' 85,
         l_Timestamp = 10000000000, l_CreatedAt = 10000000000\<rparr>]]\<rparr>"
  by (simp add: world4_pushed_def world4_eq pushSystemLogs_def latestSystemLogs_def)

text \<open>
  C3. The claim is that, with the CPU threshold 80 and the samples 70, 85, 90, 75
  evaluated in order from a store without alerts, there is no alert after 70, a new
  active alert with value 85, the same alert updated in place to 90 without a new
  state-change event, and the alert resolved at 75; and that a subscriber of the alert
  stream observes exactly one creation event and one resolution event. The code does
  the first part: the rows below are the alert table after each sample (the stored value
  of the resolved alert stays 90), and the two state changes are recorded as log rows, a
  \<^verbatim>\<open>warning\<close> at the creation and an \<^verbatim>\<open>info\<close> at the resolution. It does not do the
  second: \<^verbatim>\<open>Hub.BroadcastAlert\<close> is never called, so the messages that reach the hub
  are one \<^verbatim>\<open>system_metrics\<close> message per sample and the periodic \<^verbatim>\<open>system_log\<close> batches
  of the latest log rows, in which the creation row comes twice; there is no \<^verbatim>\<open>alert\<close>
  message among them.
\<close>

theorem alert_scenario:
  "alerts (store world1) = [] \<and>
   alerts (store world2) =
     [\<lparr>a_ID = 1, Type = ''cpu'', a_Level = ''warning'', a_Message = UsageTooHigh ''cpu'' 85,
       Value = 85, Threshold = 80, Status = ''active'', a_Timestamp = 10000000000,
       a_CreatedAt = 10000000000, a_UpdatedAt = 10000000000\<rparr>] \<and>
   alerts (store world3) =
     [\<lparr>a_ID = 1, Type = ''cpu'', a_Level = ''warning'', a_Message = UsageTooHigh ''cpu'' 90,
       Value = 90, Threshold = 80, Status = ''active'', a_Timestamp = 10000000000,
       a_CreatedAt = 10000000000, a_UpdatedAt = 15000000000\<rparr>] \<and>
   alerts (store world4) =
     [\<lparr>a_ID = 1, Type = ''cpu'', a_Level = ''warning'', a_Message = UsageTooHigh ''cpu'' 90,
       Value = 90, Threshold = 80, Status = ''resolved'', a_Timestamp = 10000000000,
       a_CreatedAt = 10000000000, a_UpdatedAt = 20000000000\<rparr>] \<and>
   map (\<lambda>l. (l_Level l, l_Message l, l_Timestamp l)) (system_logs (store world1)) = [] \<and>
   map (\<lambda>l. (l_Level l, l_Message l, l_Timestamp l)) (system_logs (store world2)) =
     [(''warning'', UsageTooHigh ''cpu'' 85, 10000000000)] \<and>
   map (\<lambda>l. (l_Level l, l_Message l, l_Timestamp l)) (system_logs (store world3)) =
     [(''warning'', UsageTooHigh ''cpu'' 85, 10000000000)] \<and>
   map (\<lambda>l. (l_Level l, l_Message l, l_Timestamp l)) (system_logs (store world4)) =
     [(''warning'', UsageTooHigh ''cpu'' 85, 10000000000),
      (''info'', UsageBackToNormal ''cpu'' 75, 20000000000)] \<and>
   map (\<lambda>m. case m of
              SystemMetricsMessage metrics \<Rightarrow> (''system_metrics'', [])
            | ServiceStatusMessage \<Rightarrow> (''service_status'', [])
            | AlertMessage a \<Rightarrow> (''alert'', [])
            | SystemLogMessage logs \<Rightarrow> (''system_log'', map l_Message logs))
     (published world4_pushed) =
     [(''system_metrics'', []), (''system_metrics'', []),
      (''system_log'', [UsageTooHigh ''cpu'' 85]),
      (''system_metrics'', []), (''system_metrics'', []),
      (''system_log'', [UsageBackToNormal ''cpu'' 75, UsageTooHigh ''cpu'' 85])] \<and>
   filter is_alert (published world4_pushed) = []"
  by (simp add: world1_eq world2_eq world3_eq world4_eq world4_pushed_eq)

subsection \<open>The broadcast hub\<close>

lemma broadcastLoop_result:
  assumes "distinct cs" and "\<forall>c \<in> set cs. \<not> closed (Send h c)"
  shows "\<exists>h'. broadcastLoop message cs h = Inr h' \<and>
    (\<forall>c. Send h' c =
       (if c \<in> set cs
        then if has_room h c then (Send h c)\<lparr>buf := buf (Send h c) @ [message]\<rparr>
             else (Send h c)\<lparr>closed := True\<rparr>
        else Send h c)) \<and>
    Clients h' = filter (\<lambda>c. c \<notin> set cs \<or> has_room h c) (Clients h)"
  using assms
proof (induction cs arbitrary: h)
  case Nil
  then show ?case by simp
next
  case (Cons c cs)
  from Cons.prems have c: "c \<notin> set cs" "distinct cs" "\<not> closed (Send h c)"
    and rest: "\<forall>x \<in> set cs. \<not> closed (Send h x)"
    by simp_all
  show ?case
  proof (cases "has_room h c")
    case True
    define h1 where "h1 = h\<lparr>Send := (Send h)(c := (Send h c)\<lparr>buf := buf (Send h c) @ [message]\<rparr>)\<rparr>"
    have step: "broadcastLoop message (c # cs) h = broadcastLoop message cs h1"
      using True c(3) by (simp add: h1_def has_room_def)
    have same: "Send h1 x = Send h x" if "x \<noteq> c" for x
      using that by (simp add: h1_def)
    have open1: "\<forall>x \<in> set cs. \<not> closed (Send h1 x)"
      using rest c(1) by (auto simp: h1_def)
    from Cons.IH [OF c(2) open1] obtain h' where
      r: "broadcastLoop message cs h1 = Inr h'"
      and s: "\<forall>x. Send h' x =
       (if x \<in> set cs
        then if has_room h1 x then (Send h1 x)\<lparr>buf := buf (Send h1 x) @ [message]\<rparr>
             else (Send h1 x)\<lparr>closed := True\<rparr>
        else Send h1 x)"
      and cl: "Clients h' = filter (\<lambda>x. x \<notin> set cs \<or> has_room h1 x) (Clients h1)"
      by blast
    have room: "has_room h1 x = has_room h x" if "x \<noteq> c" for x
      using that by (simp add: has_room_def h1_def)
    have "\<forall>x. Send h' x =
       (if x \<in> set (c # cs)
        then if has_room h x then (Send h x)\<lparr>buf := buf (Send h x) @ [message]\<rparr>
             else (Send h x)\<lparr>closed := True\<rparr>
        else Send h x)"
    proof
      fix x
      show "Send h' x =
       (if x \<in> set (c # cs)
        then if has_room h x then (Send h x)\<lparr>buf := buf (Send h x) @ [message]\<rparr>
             else (Send h x)\<lparr>closed := True\<rparr>
        else Send h x)"
      proof (cases "x = c")
        case True
        with s c(1) \<open>has_room h c\<close> show ?thesis by (simp add: h1_def)
      next
        case False
        with s same room show ?thesis by simp
      qed
    qed
    moreover have "(x \<notin> set cs \<or> has_room h1 x) = (x \<notin> set (c # cs) \<or> has_room h x)" for x
      using True c(1) room [of x] by (cases "x = c") auto
    then have "Clients h' = filter (\<lambda>x. x \<notin> set (c # cs) \<or> has_room h x) (Clients h)"
      unfolding cl by (simp add: h1_def)
    ultimately show ?thesis
      using r step by simp
  next
    case False
    define h1 where "h1 = h\<lparr>Send := (Send h)(c := (Send h c)\<lparr>closed := True\<rparr>),
                Clients := removeAll c (Clients h)\<rparr>"
    have step: "broadcastLoop message (c # cs) h = broadcastLoop message cs h1"
      using False c(3) by (simp add: h1_def has_room_def)
    have same: "Send h1 x = Send h x" if "x \<noteq> c" for x
      using that by (simp add: h1_def)
    have open1: "\<forall>x \<in> set cs. \<not> closed (Send h1 x)"
      using rest c(1) by (auto simp: h1_def)
    from Cons.IH [OF c(2) open1] obtain h' where
      r: "broadcastLoop message cs h1 = Inr h'"
      and s: "\<forall>x. Send h' x =
       (if x \<in> set cs
        then if has_room h1 x then (Send h1 x)\<lparr>buf := buf (Send h1 x) @ [message]\<rparr>
             else (Send h1 x)\<lparr>closed := True\<rparr>
        else Send h1 x)"
      and cl: "Clients h' = filter (\<lambda>x. x \<notin> set cs \<or> has_room h1 x) (Clients h1)"
      by blast
    have room: "has_room h1 x = has_room h x" if "x \<noteq> c" for x
      using that by (simp add: has_room_def h1_def)
    have "\<forall>x. Send h' x =
       (if x \<in> set (c # cs)
        then if has_room h x then (Send h x)\<lparr>buf := buf (Send h x) @ [message]\<rparr>
             else (Send h x)\<lparr>closed := True\<rparr>
        else Send h x)"
    proof
      fix x
      show "Send h' x =
       (if x \<in> set (c # cs)
        then if has_room h x then (Send h x)\<lparr>buf := buf (Send h x) @ [message]\<rparr>
             else (Send h x)\<lparr>closed := True\<rparr>
        else Send h x)"
      proof (cases "x = c")
        case True
        with s c(1) \<open>\<not> has_room h c\<close> show ?thesis by (simp add: h1_def)
      next
        case False
        with s same room show ?thesis by simp
      qed
    qed
    moreover have "(c \<noteq> x \<and> (x \<notin> set cs \<or> has_room h1 x)) =
        (x \<notin> set (c # cs) \<or> has_room h x)" for x
      using False c(1) room [of x] by (cases "x = c") auto
    then have "Clients h' = filter (\<lambda>x. x \<notin> set (c # cs) \<or> has_room h x) (Clients h)"
      unfolding cl by (simp add: h1_def removeAll_filter_not_eq)
    ultimately show ?thesis
      using r step by simp
  qed
qed


lemma Hub_Run_Broadcast:
  assumes "distinct (Clients h)" and "\<forall>c \<in> set (Clients h). \<not> closed (Send h c)"
  shows "\<exists>h'. Hub_Run (Broadcast message) h = Inr h' \<and>
    (\<forall>c. Send h' c =
       (if c \<in> set (Clients h)
        then if has_room h c then (Send h c)\<lparr>buf := buf (Send h c) @ [message]\<rparr>
             else (Send h c)\<lparr>closed := True\<rparr>
        else Send h c)) \<and>
    Clients h' = filter (has_room h) (Clients h)"
proof -
  from broadcastLoop_result [OF assms, of message] obtain h' where
    r: "broadcastLoop message (Clients h) h = Inr h'"
    and s: "\<forall>c. Send h' c =
       (if c \<in> set (Clients h)
        then if has_room h c then (Send h c)\<lparr>buf := buf (Send h c) @ [message]\<rparr>
             else (Send h c)\<lparr>closed := True\<rparr>
        else Send h c)"
    and cl: "Clients h' = filter (\<lambda>c. c \<notin> set (Clients h) \<or> has_room h c) (Clients h)"
    by blast
  have "filter (\<lambda>c. c \<notin> set (Clients h) \<or> has_room h c) (Clients h) =
      filter (has_room h) (Clients h)"
    by (rule filter_cong) auto
  with r s cl show ?thesis
    by simp
qed

lemma fast_round:
  assumes "f \<noteq> s" and "fast_and_slow f s (hub n)"
  shows "\<exists>n'. run [Request (Broadcast message), Receive f] n = Inr n' \<and>
    fast_and_slow f s (hub n') \<and>
    written n' f = written n f @ [message] \<and>
    s \<notin> set (Clients (hub n')) \<and>
    buf (Send (hub n') s) = buf (Send (hub n) s) \<and>
    (closed (Send (hub n') s) \<longleftrightarrow> closed (Send (hub n) s) \<or> s \<in> set (Clients (hub n)))"
proof -
  let ?h = "hub n"
  from assms(2) have d: "distinct (Clients ?h)" and fin: "f \<in> set (Clients ?h)"
    and sub: "set (Clients ?h) \<subseteq> {f, s}"
    and fo: "\<not> closed (Send ?h f)" "buf (Send ?h f) = []" "0 < cap (Send ?h f)"
    and so: "s \<in> set (Clients ?h) \<longrightarrow>
         \<not> closed (Send ?h s) \<and> length (buf (Send ?h s)) = cap (Send ?h s)"
    by (simp_all add: fast_and_slow_def)
  have op: "\<forall>c \<in> set (Clients ?h). \<not> closed (Send ?h c)"
    using sub fo(1) so by auto
  from Hub_Run_Broadcast [OF d op, of message] obtain h' where
    r: "Hub_Run (Broadcast message) ?h = Inr h'"
    and snd: "\<And>c. Send h' c =
       (if c \<in> set (Clients ?h)
        then if has_room ?h c then (Send ?h c)\<lparr>buf := buf (Send ?h c) @ [message]\<rparr>
             else (Send ?h c)\<lparr>closed := True\<rparr>
        else Send ?h c)"
    and cl: "Clients h' = filter (has_room ?h) (Clients ?h)"
    by blast
  have roomf: "has_room ?h f"
    using fo by (simp add: has_room_def)
  have rooms: "s \<in> set (Clients ?h) \<Longrightarrow> \<not> has_room ?h s"
    using so by (simp add: has_room_def)
  have sf: "Send h' f = (Send ?h f)\<lparr>buf := [message]\<rparr>"
    using snd [of f] fin roomf fo(2) by simp
  have ss: "Send h' s = (if s \<in> set (Clients ?h) then (Send ?h s)\<lparr>closed := True\<rparr> else Send ?h s)"
    using snd [of s] rooms by simp
  have clf: "f \<in> set (Clients h')" and cls: "s \<notin> set (Clients h')"
    and cld: "distinct (Clients h')" and clsub: "set (Clients h') \<subseteq> {f, s}"
    using fin roomf rooms d sub by (auto simp: cl)
  define n' where "n' = n\<lparr>hub := h'\<lparr>Send := (Send h')(f := (Send h' f)\<lparr>buf := []\<rparr>)\<rparr>,
                 written := (written n)(f := written n f @ [message])\<rparr>"
  have "run [Request (Broadcast message), Receive f] n = Inr n'"
    using r sf by (simp add: n'_def)
  moreover have "fast_and_slow f s (hub n')"
    using clf cls cld clsub fo sf by (simp add: n'_def fast_and_slow_def)
  moreover have "written n' f = written n f @ [message]"
    by (simp add: n'_def)
  moreover have "s \<notin> set (Clients (hub n'))"
    using cls by (simp add: n'_def)
  moreover have "buf (Send (hub n') s) = buf (Send (hub n) s)"
    using ss assms(1) by (simp add: n'_def)
  moreover have "closed (Send (hub n') s) \<longleftrightarrow> closed (Send (hub n) s) \<or> s \<in> set (Clients (hub n))"
    using ss assms(1) by (simp add: n'_def)
  ultimately show ?thesis
    by blast
qed

lemma fast_rounds:
  assumes "f \<noteq> s" and "fast_and_slow f s (hub n)"
  shows "\<exists>n'. run (publish_to_fast f messages) n = Inr n' \<and>
    fast_and_slow f s (hub n') \<and>
    written n' f = written n f @ messages \<and>
    buf (Send (hub n') s) = buf (Send (hub n) s) \<and>
    (messages \<noteq> [] \<longrightarrow> s \<notin> set (Clients (hub n'))) \<and>
    (closed (Send (hub n') s) \<longleftrightarrow>
       closed (Send (hub n) s) \<or> (messages \<noteq> [] \<and> s \<in> set (Clients (hub n))))"
  using assms(2)
proof (induction messages arbitrary: n)
  case Nil
  then show ?case by simp
next
  case (Cons message messages)
  from fast_round [OF assms(1) Cons.prems, of message] obtain n1 where
    r1: "run [Request (Broadcast message), Receive f] n = Inr n1"
    and i1: "fast_and_slow f s (hub n1)"
    and w1: "written n1 f = written n f @ [message]"
    and c1: "s \<notin> set (Clients (hub n1))"
    and b1: "buf (Send (hub n1) s) = buf (Send (hub n) s)"
    and k1: "closed (Send (hub n1) s) \<longleftrightarrow> closed (Send (hub n) s) \<or> s \<in> set (Clients (hub n))"
    by blast
  from Cons.IH [OF i1] obtain n' where
    r2: "run (publish_to_fast f messages) n1 = Inr n'"
    and i2: "fast_and_slow f s (hub n')"
    and w2: "written n' f = written n1 f @ messages"
    and b2: "buf (Send (hub n') s) = buf (Send (hub n1) s)"
    and c2: "messages \<noteq> [] \<longrightarrow> s \<notin> set (Clients (hub n'))"
    and k2: "closed (Send (hub n') s) \<longleftrightarrow>
       closed (Send (hub n1) s) \<or> (messages \<noteq> [] \<and> s \<in> set (Clients (hub n1)))"
    by blast
  have run: "run (publish_to_fast f (message # messages)) n = Inr n'"
    using r1 r2 by (auto split: sum.splits)
  have "s \<notin> set (Clients (hub n'))"
  proof (cases "messages = []")
    case True
    with r2 c1 show ?thesis by simp
  next
    case False
    with c2 show ?thesis by simp
  qed
  with run i2 w1 w2 b1 b2 k1 k2 c1 show ?case
    by auto
qed

text \<open>
  C5. A publish that the hub processes (its registered clients being distinct and
  their queues open, which the publish keeps so) does not fail or block: every
  registered client whose queue has free capacity gets the message appended to its
  queue and stays registered; every registered client whose queue is full has its
  queue closed and is removed from the set, with nothing added to its queue; the others
  are not touched. In particular, when a fast client (one that takes each message from
  its queue before the next publish) and a client whose queue is filled to capacity are
  registered, publishing any messages delivers all of them, in order, to the fast
  client, which stays registered, and the first publish unregisters the slow one.
\<close>

theorem Hub_broadcast_drops_full_subscribers:
  "(distinct (Clients h) \<and> (\<forall>c \<in> set (Clients h). \<not> closed (Send h c)) \<longrightarrow>
      (\<exists>h'. Hub_Run (Broadcast message) h = Inr h' \<and>
         (\<forall>c \<in> set (Clients h).
            (has_room h c \<longrightarrow>
               Send h' c = (Send h c)\<lparr>buf := buf (Send h c) @ [message]\<rparr> \<and>
               c \<in> set (Clients h')) \<and>
            (\<not> has_room h c \<longrightarrow>
               Send h' c = (Send h c)\<lparr>closed := True\<rparr> \<and> c \<notin> set (Clients h'))) \<and>
         (\<forall>c. c \<notin> set (Clients h) \<longrightarrow> Send h' c = Send h c \<and> c \<notin> set (Clients h')) \<and>
         distinct (Clients h') \<and> (\<forall>c \<in> set (Clients h'). \<not> closed (Send h' c)))) \<and>
   (f \<noteq> s \<and> distinct (Clients (hub n)) \<and> set (Clients (hub n)) = {f, s} \<and>
    \<not> closed (Send (hub n) f) \<and> buf (Send (hub n) f) = [] \<and> 0 < cap (Send (hub n) f) \<and>
    \<not> closed (Send (hub n) s) \<and> length (buf (Send (hub n) s)) = cap (Send (hub n) s) \<longrightarrow>
      (\<exists>n'. run (publish_to_fast f messages) n = Inr n' \<and>
         written n' f = written n f @ messages \<and>
         f \<in> set (Clients (hub n')) \<and> \<not> closed (Send (hub n') f) \<and>
         buf (Send (hub n') s) = buf (Send (hub n) s) \<and>
         (messages \<noteq> [] \<longrightarrow> s \<notin> set (Clients (hub n')) \<and> closed (Send (hub n') s))))"
proof (intro conjI impI)
  assume "distinct (Clients h) \<and> (\<forall>c \<in> set (Clients h). \<not> closed (Send h c))"
  then have d: "distinct (Clients h)" and op: "\<forall>c \<in> set (Clients h). \<not> closed (Send h c)"
    by simp_all
  from Hub_Run_Broadcast [OF d op, of message] obtain h' where
    r: "Hub_Run (Broadcast message) h = Inr h'"
    and snd: "\<And>c. Send h' c =
       (if c \<in> set (Clients h)
        then if has_room h c then (Send h c)\<lparr>buf := buf (Send h c) @ [message]\<rparr>
             else (Send h c)\<lparr>closed := True\<rparr>
        else Send h c)"
    and cl: "Clients h' = filter (has_room h) (Clients h)"
    by blast
  have "\<forall>c \<in> set (Clients h).
      (has_room h c \<longrightarrow>
         Send h' c = (Send h c)\<lparr>buf := buf (Send h c) @ [message]\<rparr> \<and> c \<in> set (Clients h')) \<and>
      (\<not> has_room h c \<longrightarrow>
         Send h' c = (Send h c)\<lparr>closed := True\<rparr> \<and> c \<notin> set (Clients h'))"
    by (simp add: snd cl)
  moreover have "\<forall>c. c \<notin> set (Clients h) \<longrightarrow> Send h' c = Send h c \<and> c \<notin> set (Clients h')"
    by (simp add: snd cl)
  moreover have "distinct (Clients h')"
    using d by (simp add: cl)
  moreover have "\<forall>c \<in> set (Clients h'). \<not> closed (Send h' c)"
    using op by (simp add: snd cl)
  ultimately show "\<exists>h'. Hub_Run (Broadcast message) h = Inr h' \<and>
         (\<forall>c \<in> set (Clients h).
            (has_room h c \<longrightarrow>
               Send h' c = (Send h c)\<lparr>buf := buf (Send h c) @ [message]\<rparr> \<and>
               c \<in> set (Clients h')) \<and>
            (\<not> has_room h c \<longrightarrow>
               Send h' c = (Send h c)\<lparr>closed := True\<rparr> \<and> c \<notin> set (Clients h'))) \<and>
         (\<forall>c. c \<notin> set (Clients h) \<longrightarrow> Send h' c = Send h c \<and> c \<notin> set (Clients h')) \<and>
         distinct (Clients h') \<and> (\<forall>c \<in> set (Clients h'). \<not> closed (Send h' c))"
    using r by blast
next
  assume a: "f \<noteq> s \<and> distinct (Clients (hub n)) \<and> set (Clients (hub n)) = {f, s} \<and>
    \<not> closed (Send (hub n) f) \<and> buf (Send (hub n) f) = [] \<and> 0 < cap (Send (hub n) f) \<and>
    \<not> closed (Send (hub n) s) \<and> length (buf (Send (hub n) s)) = cap (Send (hub n) s)"
  then have ne: "f \<noteq> s" and start: "fast_and_slow f s (hub n)"
    and sin: "s \<in> set (Clients (hub n))"
    by (simp_all add: fast_and_slow_def)
  from fast_rounds [OF ne start, of messages] obtain n' where
    r: "run (publish_to_fast f messages) n = Inr n'"
    and i: "fast_and_slow f s (hub n')"
    and w: "written n' f = written n f @ messages"
    and b: "buf (Send (hub n') s) = buf (Send (hub n) s)"
    and c: "messages \<noteq> [] \<longrightarrow> s \<notin> set (Clients (hub n'))"
    and k: "closed (Send (hub n') s) \<longleftrightarrow>
       closed (Send (hub n) s) \<or> (messages \<noteq> [] \<and> s \<in> set (Clients (hub n)))"
    by blast
  from i have "f \<in> set (Clients (hub n'))" "\<not> closed (Send (hub n') f)"
    by (simp_all add: fast_and_slow_def)
  with r w b c k sin
  show "\<exists>n'. run (publish_to_fast f messages) n = Inr n' \<and>
         written n' f = written n f @ messages \<and>
         f \<in> set (Clients (hub n')) \<and> \<not> closed (Send (hub n') f) \<and>
         buf (Send (hub n') s) = buf (Send (hub n) s) \<and>
         (messages \<noteq> [] \<longrightarrow> s \<notin> set (Clients (hub n')) \<and> closed (Send (hub n') s))"
    by blast
qed

text \<open>
  The theorem at the hub of two clients with queues of capacity 2, the second full:
  one publish reaches client 1 and drops client 2; three publishes, each taken by
  client 1 before the next, are all written to its socket.
\<close>

theorem Hub_broadcast_drops_full_subscribers_witness:
  "(\<exists>h'. Hub_Run (Broadcast ''a'') example_hub = Inr h' \<and>
      buf (Send h' 1) = [''a''] \<and> 1 \<in> set (Clients h') \<and>
      closed (Send h' 2) \<and> buf (Send h' 2) = [''x'', ''y''] \<and> 2 \<notin> set (Clients h')) \<and>
   (\<exists>n'. run (publish_to_fast 1 [''a'', ''b'', ''c'']) example_net = Inr n' \<and>
      written n' 1 = [''a'', ''b'', ''c''] \<and> 1 \<in> set (Clients (hub n')) \<and>
      2 \<notin> set (Clients (hub n')) \<and> closed (Send (hub n') 2))"
proof -
  note inst = Hub_broadcast_drops_full_subscribers
    [of example_hub "''a''" 1 2 example_net "[''a'', ''b'', ''c'']"]
  have pre1: "distinct (Clients example_hub) \<and>
      (\<forall>c \<in> set (Clients example_hub). \<not> closed (Send example_hub c))"
    by (simp add: example_hub_def)
  have room: "has_room example_hub 1" "\<not> has_room example_hub 2"
    "1 \<in> set (Clients example_hub)" "2 \<in> set (Clients example_hub)"
    by (simp_all add: has_room_def example_hub_def)
  have vals: "buf (Send example_hub 1) @ [''a''] = [''a'']"
    "buf (Send example_hub 2) = [''x'', ''y'']"
    by (simp_all add: example_hub_def)
  from inst pre1 obtain h' where
    r: "Hub_Run (Broadcast ''a'') example_hub = Inr h'"
    and each: "\<forall>c \<in> set (Clients example_hub).
            (has_room example_hub c \<longrightarrow>
               Send h' c = (Send example_hub c)\<lparr>buf := buf (Send example_hub c) @ [''a'']\<rparr> \<and>
               c \<in> set (Clients h')) \<and>
            (\<not> has_room example_hub c \<longrightarrow>
               Send h' c = (Send example_hub c)\<lparr>closed := True\<rparr> \<and> c \<notin> set (Clients h'))"
    by blast
  from each room(1,3) have c1: "Send h' 1 =
      (Send example_hub 1)\<lparr>buf := buf (Send example_hub 1) @ [''a'']\<rparr>" "1 \<in> set (Clients h')"
    by blast+
  from each room(2,4) have c2: "Send h' 2 = (Send example_hub 2)\<lparr>closed := True\<rparr>"
    "2 \<notin> set (Clients h')"
    by blast+
  have first: "\<exists>h'. Hub_Run (Broadcast ''a'') example_hub = Inr h' \<and>
      buf (Send h' 1) = [''a''] \<and> 1 \<in> set (Clients h') \<and>
      closed (Send h' 2) \<and> buf (Send h' 2) = [''x'', ''y''] \<and> 2 \<notin> set (Clients h')"
    using r c1 c2 vals by auto
  have pre2: "(1::nat) \<noteq> 2 \<and> distinct (Clients (hub example_net)) \<and>
    set (Clients (hub example_net)) = {1, 2} \<and>
    \<not> closed (Send (hub example_net) 1) \<and> buf (Send (hub example_net) 1) = [] \<and>
    0 < cap (Send (hub example_net) 1) \<and>
    \<not> closed (Send (hub example_net) 2) \<and>
    length (buf (Send (hub example_net) 2)) = cap (Send (hub example_net) 2)"
    by (simp add: example_net_def example_hub_def)
  have w0: "written example_net 1 @ [''a'', ''b'', ''c''] = [''a'', ''b'', ''c'']"
    "[''a'', ''b'', ''c''] \<noteq> ([] :: bytes list)"
    by (simp_all add: example_net_def)
  from inst pre2 obtain n' where
    "run (publish_to_fast 1 [''a'', ''b'', ''c'']) example_net = Inr n'"
    "written n' 1 = written example_net 1 @ [''a'', ''b'', ''c'']"
    "1 \<in> set (Clients (hub n'))"
    "[''a'', ''b'', ''c''] \<noteq> ([] :: bytes list) \<longrightarrow>
       2 \<notin> set (Clients (hub n')) \<and> closed (Send (hub n') 2)"
    by blast
  with w0 have "\<exists>n'. run (publish_to_fast 1 [''a'', ''b'', ''c'']) example_net = Inr n' \<and>
      written n' 1 = [''a'', ''b'', ''c''] \<and> 1 \<in> set (Clients (hub n')) \<and>
      2 \<notin> set (Clients (hub n')) \<and> closed (Send (hub n') 2)"
    by auto
  with first show ?thesis
    by blast
qed

end
